theory Spec2Isabelle
  imports Complex_Main
begin

section \<open>Scene model\<close>

text \<open>
  The plugin works on the host's scene graph. A node is modelled with the fields the
  code reads: its \<open>type\<close>, \<open>id\<close>, \<open>name\<close>, the translation part of its
  \<open>absoluteTransform\<close> (\<open>abs[0][2]\<close> and \<open>abs[1][2]\<close>), its \<open>width\<close> and
  \<open>height\<close>, the name of the component that \<open>getMainComponentAsync\<close> resolves to
  when the annotate loop reaches the node (\<open>None\<close> when it resolves to \<open>null\<close>
  or throws), and its \<open>parent\<close>
  (\<open>None\<close> for \<open>null\<close>). The parent chain of a tree is finite, which the datatype
  expresses. The numbers of a node are real numbers; a value that the code reads where
  the host has none is kept apart (see below).
\<close>

datatype node_type = DOCUMENT | PAGE | FRAME | GROUP | COMPONENT | INSTANCE
  | RECTANGLE | VECTOR | ELLIPSE | TEXT

datatype node = Node
  (ntype: node_type)
  (nid: string)
  (name: string)
  (absX: real)
  (absY: real)
  (width: real)
  (height: real)
  (mainComponent: "string option")
  (parent: "node option")

text \<open>The four direction strings \<open>"left"\<close>, \<open>"right"\<close>, \<open>"top"\<close>, \<open>"bottom"\<close>.\<close>

datatype direction = DLeft | DRight | DTop | DBottom

subsection \<open>getOutermostFrame\<close>

text \<open>
  The loop \<open>while (current && current.parent && current.parent.type !== "PAGE")\<close>
  with the two variables \<open>current\<close> and \<open>outer\<close>.
\<close>

fun walk :: "node \<Rightarrow> node option \<Rightarrow> node option" where
  "walk (Node t i nm x y w h mc None) outer = outer"
| "walk (Node t i nm x y w h mc (Some p)) outer =
     (if ntype p = PAGE then outer
      else walk p (if ntype p = FRAME then Some p else outer))"

definition getOutermostFrame :: "node \<Rightarrow> node option" where
  "getOutermostFrame n = walk n None"

text \<open>
  The vocabulary of the specification: the parent chain of a node, nearest first; the
  part of it below the canvas root; the frames in that part.
\<close>

fun ancestors :: "node \<Rightarrow> node list" where
  "ancestors (Node t i nm x y w h mc None) = []"
| "ancestors (Node t i nm x y w h mc (Some p)) = p # ancestors p"

definition below_canvas :: "node \<Rightarrow> node list" where
  "below_canvas n = takeWhile (\<lambda>a. ntype a \<noteq> PAGE) (ancestors n)"

definition frame_ancestors :: "node \<Rightarrow> node list" where
  "frame_ancestors n = filter (\<lambda>a. ntype a = FRAME) (below_canvas n)"

subsection \<open>The host's sort\<close>

text \<open>
  \<open>Array.prototype.sort\<close> with a comparator is a stable sort: an element moves in
  front of another one only when the comparator is positive for the pair in their
  current order. It is modelled by insertion from the right, which keeps equal
  elements in their original order.
\<close>

fun insert_by :: "('a \<Rightarrow> 'a \<Rightarrow> real) \<Rightarrow> 'a \<Rightarrow> 'a list \<Rightarrow> 'a list" where
  "insert_by cmp a [] = [a]"
| "insert_by cmp a (b # bs) =
     (if cmp a b \<le> 0 then a # b # bs else b # insert_by cmp a bs)"

definition sort_by :: "('a \<Rightarrow> 'a \<Rightarrow> real) \<Rightarrow> 'a list \<Rightarrow> 'a list" where
  "sort_by cmp xs = foldr (insert_by cmp) xs []"

subsection \<open>Values that may not be numbers\<close>

text \<open>
  What a read or a subtraction of the code can give: a number, \<open>undefined\<close> (the
  read of a property that the object does not have) or \<open>NaN\<close>. A subtraction with
  an operand that is not a number gives \<open>NaN\<close>. The sort takes a comparator result
  that is \<open>NaN\<close> as \<open>+0\<close>. With such results the comparator is not a
  consistent one and the language leaves the order to the engine; the model keeps the
  insertion above, under which the first of the four entries stays first when the
  second and the fourth are \<open>NaN\<close>.
\<close>

datatype jsval = Num real | Undefined | NaN

fun js_minus :: "jsval \<Rightarrow> jsval \<Rightarrow> jsval" where
  "js_minus (Num a) (Num b) = Num (a - b)"
| "js_minus a b = NaN"

definition sortCompare :: "jsval \<Rightarrow> real" where
  "sortCompare v = (case v of Num c \<Rightarrow> c | Undefined \<Rightarrow> 0 | NaN \<Rightarrow> 0)"

subsection \<open>calculateGapAndDirection\<close>

record gap_result =
  minDir :: direction
  minGap :: real
  res_x :: real
  res_y :: real
  gapLeft :: real
  gapRight :: real
  gapTop :: real
  gapBottom :: real

text \<open>
  The bounds the gaps are measured against. With a frame ancestor both shipped variants
  take them from the outermost frame.
\<close>

record bounds =
  leftBound :: real
  topBound :: real
  rightBound :: real
  bottomBound :: real

definition frameBounds :: "node \<Rightarrow> bounds" where
  "frameBounds outer =
     \<lparr> leftBound = absX outer, topBound = absY outer,
       rightBound = absX outer + width outer, bottomBound = absY outer + height outer \<rparr>"

text \<open>The compiled build (code.js): without a frame ancestor, the icon's own bounds.\<close>

definition resolveBounds :: "node \<Rightarrow> bounds" where
  "resolveBounds n =
     (let x = absX n; y = absY n in
      case getOutermostFrame n of
        Some outer \<Rightarrow> frameBounds outer
      | None \<Rightarrow> \<lparr> leftBound = x, topBound = y,
                  rightBound = x + width n, bottomBound = y + height n \<rparr>)"

text \<open>
  The gaps from the bounds, the four-entry array, the sort and the read of entry 0.
\<close>

definition gaps_and_direction :: "node \<Rightarrow> bounds \<Rightarrow> gap_result" where
  "gaps_and_direction n bnd =
     (let x = absX n; y = absY n;
          gl = x - leftBound bnd;
          gr = rightBound bnd - (x + width n);
          gt = y - topBound bnd;
          gb = bottomBound bnd - (y + height n);
          gaps = sort_by (\<lambda>a b. snd a - snd b)
                   [(DLeft, gl), (DRight, gr), (DTop, gt), (DBottom, gb)]
      in \<lparr> minDir = fst (hd gaps), minGap = snd (hd gaps), res_x = x, res_y = y,
           gapLeft = gl, gapRight = gr, gapTop = gt, gapBottom = gb \<rparr>)"

definition calculateGapAndDirection :: "node \<Rightarrow> gap_result" where
  "calculateGapAndDirection n = gaps_and_direction n (resolveBounds n)"

subsection \<open>The canvas fallback\<close>

text \<open>
  The TypeScript source of \<open>calculateGapAndDirection\<close>, and the realign workflow of
  both files, take the bounds of an element without a frame ancestor as \<open>0\<close>,
  \<open>0\<close>, \<open>figma.currentPage.width\<close> and \<open>figma.currentPage.height\<close>.
  \<open>figma.currentPage\<close> is a page node, and a page node has no \<open>width\<close> and no
  \<open>height\<close>: both reads give \<open>undefined\<close>.
\<close>

record canvas_bounds =
  leftBound_c :: jsval
  topBound_c :: jsval
  rightBound_c :: jsval
  bottomBound_c :: jsval

definition numeric :: "bounds \<Rightarrow> canvas_bounds" where
  "numeric bnd =
     \<lparr> leftBound_c = Num (leftBound bnd), topBound_c = Num (topBound bnd),
       rightBound_c = Num (rightBound bnd), bottomBound_c = Num (bottomBound bnd) \<rparr>"

definition currentPage_width :: jsval where
  "currentPage_width = Undefined"

definition currentPage_height :: jsval where
  "currentPage_height = Undefined"

definition resolveBounds_canvas :: "node \<Rightarrow> canvas_bounds" where
  "resolveBounds_canvas n =
     (case getOutermostFrame n of
        Some outer \<Rightarrow> numeric (frameBounds outer)
      | None \<Rightarrow> \<lparr> leftBound_c = Num 0, topBound_c = Num 0,
                  rightBound_c = currentPage_width, bottomBound_c = currentPage_height \<rparr>)"

text \<open>The TypeScript source of \<open>calculateGapAndDirection\<close>.\<close>

record gap_result_ts =
  minDir_ts :: direction
  minGap_ts :: jsval
  res_x_ts :: real
  res_y_ts :: real
  gapLeft_ts :: jsval
  gapRight_ts :: jsval
  gapTop_ts :: jsval
  gapBottom_ts :: jsval

definition calculateGapAndDirection_ts :: "node \<Rightarrow> gap_result_ts" where
  "calculateGapAndDirection_ts n =
     (let x = absX n; y = absY n;
          bnd = resolveBounds_canvas n;
          gl = js_minus (Num x) (leftBound_c bnd);
          gr = js_minus (rightBound_c bnd) (Num (x + width n));
          gt = js_minus (Num y) (topBound_c bnd);
          gb = js_minus (bottomBound_c bnd) (Num (y + height n));
          gaps = sort_by (\<lambda>a b. sortCompare (js_minus (snd a) (snd b)))
                   [(DLeft, gl), (DRight, gr), (DTop, gt), (DBottom, gb)]
      in \<lparr> minDir_ts = fst (hd gaps), minGap_ts = snd (hd gaps), res_x_ts = x, res_y_ts = y,
           gapLeft_ts = gl, gapRight_ts = gr, gapTop_ts = gt, gapBottom_ts = gb \<rparr>)"


subsection \<open>createAnnotationGroup\<close>

datatype layout_mode = HORIZONTAL | VERTICAL

datatype align = ALIGN_MIN | ALIGN_MAX | ALIGN_CENTER

text \<open>The three children of the card; the label carries its text.\<close>

datatype part = Circle | Connector | Label string

text \<open>
  A frame as the code builds and reads it. \<open>groupFrame\<close> is such a frame, named
  \<open>icon-naming-card\<close>; its \<open>width\<close> and \<open>height\<close> are measured by the host's
  auto-layout once the children are appended. The connector is the vector: the size
  given to \<open>vector.resize\<close> and the two end points of its path.
\<close>

record card =
  c_type :: node_type
  c_name :: string
  c_width :: real
  c_height :: real
  layoutMode :: layout_mode
  primaryAxisAlignItems :: align
  c_children :: "part list"
  vectorSize :: "real \<times> real"
  vectorPath :: "(real \<times> real) \<times> (real \<times> real)"

text \<open>
  A wrapper group: name, position, lock, plugin data (key and value pairs) and its
  descendants in the order \<open>findOne\<close> visits them.
\<close>

record wrapper =
  w_name :: string
  w_x :: real
  w_y :: real
  w_locked :: bool
  w_pluginData :: "(string \<times> string) list"
  w_nodes :: "card list"

definition setPluginData :: "string \<Rightarrow> string \<Rightarrow> (string \<times> string) list \<Rightarrow> (string \<times> string) list" where
  "setPluginData k v pd = (k, v) # filter (\<lambda>e. fst e \<noteq> k) pd"

definition getPluginData :: "(string \<times> string) list \<Rightarrow> string \<Rightarrow> string" where
  "getPluginData pd k = (case map_of pd k of Some v \<Rightarrow> v | None \<Rightarrow> [])"

text \<open>
  What the host supplies: the auto-layout measurement of a card, the generated token of
  the k-th wrapper, the identifier given to a new group, and the lookup of a target
  element by identifier (\<open>None\<close> when \<open>getNodeByIdAsync\<close> gives \<open>null\<close>
  or throws).
\<close>

record host =
  layout :: "card \<Rightarrow> real \<times> real"
  uuid_at :: "nat \<Rightarrow> string"
  new_group_id :: string
  sceneNode :: "string \<Rightarrow> node option"

definition labelPadding :: real where
  "labelPadding = 66"

definition initialLineLength :: "gap_result \<Rightarrow> real" where
  "initialLineLength r = max (minGap r + labelPadding) 60"

text \<open>
  The four branches on \<open>minDir\<close>. The variable \<open>lineLength\<close> gets its initial
  value before the branches and is assigned again in each of them; the vector is resized
  and its path is written with the value of the branch.
\<close>

definition buildCard :: "gap_result \<Rightarrow> string \<Rightarrow> card" where
  "buildCard r labelText =
     (let lineLength = initialLineLength r
      in if minDir r = DRight then
           (let lineLength = max (gapRight r + labelPadding) 60
            in \<lparr> c_type = FRAME, c_name = ''icon-naming-card'', c_width = 100, c_height = 100,
                 layoutMode = HORIZONTAL, primaryAxisAlignItems = ALIGN_MIN,
                 c_children = [Circle, Connector, Label labelText],
                 vectorSize = (lineLength, 2), vectorPath = ((0, 1), (lineLength, 1)) \<rparr>)
         else if minDir r = DLeft then
           (let lineLength = max (gapLeft r + labelPadding) 60
            in \<lparr> c_type = FRAME, c_name = ''icon-naming-card'', c_width = 100, c_height = 100,
                 layoutMode = HORIZONTAL, primaryAxisAlignItems = ALIGN_MAX,
                 c_children = [Label labelText, Connector, Circle],
                 vectorSize = (lineLength, 2), vectorPath = ((lineLength, 1), (0, 1)) \<rparr>)
         else if minDir r = DTop then
           (let lineLength = max (gapTop r + labelPadding) 60
            in \<lparr> c_type = FRAME, c_name = ''icon-naming-card'', c_width = 100, c_height = 100,
                 layoutMode = VERTICAL, primaryAxisAlignItems = ALIGN_CENTER,
                 c_children = [Label labelText, Connector, Circle],
                 vectorSize = (2, lineLength), vectorPath = ((1, 0), (1, lineLength)) \<rparr>)
         else
           (let lineLength = max (gapBottom r + labelPadding) 60
            in \<lparr> c_type = FRAME, c_name = ''icon-naming-card'', c_width = 100, c_height = 100,
                 layoutMode = VERTICAL, primaryAxisAlignItems = ALIGN_CENTER,
                 c_children = [Circle, Connector, Label labelText],
                 vectorSize = (2, lineLength), vectorPath = ((1, lineLength), (1, 0)) \<rparr>))"

definition groupXMap :: "node \<Rightarrow> real \<Rightarrow> real \<Rightarrow> direction \<Rightarrow> real" where
  "groupXMap n x fw d =
     (case d of
        DRight \<Rightarrow> x + width n
      | DLeft \<Rightarrow> x - fw
      | DTop \<Rightarrow> x + width n / 2 - fw / 2
      | DBottom \<Rightarrow> x + width n / 2 - fw / 2)"

definition groupYMap :: "node \<Rightarrow> real \<Rightarrow> real \<Rightarrow> direction \<Rightarrow> real" where
  "groupYMap n y fh d =
     (case d of
        DRight \<Rightarrow> y + height n / 2 - fh / 2
      | DLeft \<Rightarrow> y + height n / 2 - fh / 2
      | DTop \<Rightarrow> y - fh
      | DBottom \<Rightarrow> y + height n)"

definition createAnnotationGroup :: "host \<Rightarrow> node \<Rightarrow> string \<Rightarrow> string \<Rightarrow> wrapper" where
  "createAnnotationGroup h n labelText uuid =
     (let r = calculateGapAndDirection n;
          built = buildCard r labelText;
          groupFrame = built \<lparr> c_width := fst (layout h built), c_height := snd (layout h built) \<rparr>
      in \<lparr> w_name = ''iconAnnotation-'' @ uuid,
           w_x = groupXMap n (res_x r) (c_width groupFrame) (minDir r),
           w_y = groupYMap n (res_y r) (c_height groupFrame) (minDir r),
           w_locked = True,
           w_pluginData = setPluginData ''uuid'' uuid (setPluginData ''targetId'' (nid n) []),
           w_nodes = [groupFrame] \<rparr>)"

subsection \<open>Name checks\<close>

text \<open>
  The test \<open>/^(ic_|ig_|img_|icon_)/i\<close>: a letter of the pattern matches itself and
  its upper case, any other character only itself.
\<close>

definition ci_char :: "char \<Rightarrow> char \<Rightarrow> bool" where
  "ci_char p c =
     (c = p \<or> (97 \<le> (of_char p :: nat) \<and> (of_char p :: nat) \<le> 122
               \<and> (of_char c :: nat) + 32 = of_char p))"

definition starts_with_ci :: "string \<Rightarrow> string \<Rightarrow> bool" where
  "starts_with_ci pat s =
     (length pat \<le> length s \<and> list_all2 ci_char pat (take (length pat) s))"

definition prefix_test :: "string \<Rightarrow> bool" where
  "prefix_test s =
     (starts_with_ci ''ic_'' s \<or> starts_with_ci ''ig_'' s
      \<or> starts_with_ci ''img_'' s \<or> starts_with_ci ''icon_'' s)"

definition startsWith :: "string \<Rightarrow> string \<Rightarrow> bool" where
  "startsWith s pat = (take (length pat) s = pat)"

fun string_of_nat :: "nat \<Rightarrow> string" where
  "string_of_nat n =
     (if n < 10 then [char_of (48 + n)]
      else string_of_nat (n div 10) @ [char_of (48 + n mod 10)])"

subsection \<open>The page and getMainGroup\<close>

text \<open>
  The page as the resolver and the two workflows see it: its immediate children, the
  nodes of the document that \<open>getNodeByIdAsync\<close> can resolve and that are not
  immediate children of the page (nested deeper, or on another page), and the plugin
  data \<open>mainGroupId\<close> (empty when unset). A group carries its children, the wrappers.
\<close>

record pnode =
  p_type :: node_type
  p_id :: string
  p_name :: string
  p_locked :: bool
  p_children :: "wrapper list"

record doc =
  page_children :: "pnode list"
  elsewhere :: "pnode list"
  mainGroupId :: string

text \<open>The display name: the memo emoji U+1F4DD (four bytes in UTF-8), then \<open>Annotations\<close>.\<close>

definition mainGroupName :: string where
  "mainGroupName = [CHR 0xF0, CHR 0x9F, CHR 0x93, CHR 0x9D] @ '' Annotations''"

definition is_main_group :: "pnode \<Rightarrow> bool" where
  "is_main_group node = (p_type node = GROUP \<and> p_name node = mainGroupName)"

definition getNodeById :: "doc \<Rightarrow> string \<Rightarrow> pnode option" where
  "getNodeById d i = find (\<lambda>node. p_id node = i) (page_children d @ elsewhere d)"

text \<open>
  Returns the node and the page with its cache. A cached identifier that resolves to
  \<open>null\<close> makes \<open>node.type\<close> throw, which the \<open>catch\<close> swallows.
\<close>

definition getMainGroup :: "doc \<Rightarrow> pnode option \<times> doc" where
  "getMainGroup d =
     (let cachedId = mainGroupId d;
          cached =
            (if cachedId \<noteq> [] then
               (case getNodeById d cachedId of
                  Some node \<Rightarrow> if is_main_group node then Some node else None
                | None \<Rightarrow> None)
             else None)
      in case cached of
           Some node \<Rightarrow> (Some node, d)
         | None \<Rightarrow>
             (case find is_main_group (page_children d) of
                Some node \<Rightarrow> (Some node, d \<lparr> mainGroupId := p_id node \<rparr>)
              | None \<Rightarrow> (None, d)))"

subsection \<open>main: the annotate workflow\<close>

text \<open>The three checks on the node type; \<open>Inl\<close> is the warning, \<open>Inr\<close> the name kept.\<close>

definition validate :: "node \<Rightarrow> string + string" where
  "validate icon =
     (if ntype icon = INSTANCE then
        (case mainComponent icon of
           None \<Rightarrow> Inl ''Instance corresponding component must start with ic_/ig_/img_/icon_.''
         | Some compName \<Rightarrow>
             if \<not> prefix_test compName
             then Inl ''Instance corresponding component must start with ic_/ig_/img_/icon_.''
             else Inr compName)
      else if ntype icon = COMPONENT then
        (if \<not> prefix_test (name icon)
         then Inl ''Component name must start with ic_/ig_/img_/icon_.''
         else Inr (name icon))
      else
        (if \<not> prefix_test (name icon)
         then Inl ''Layer name must start with ic_/ig_/img_/icon_.''
         else Inr (name icon)))"

text \<open>\<open>icon.name = ...\<close> as seen from the page: the node with that identifier is renamed.\<close>

definition rename_node :: "string \<Rightarrow> string \<Rightarrow> doc \<Rightarrow> doc" where
  "rename_node i nm d =
     d \<lparr> page_children :=
            map (\<lambda>node. if p_id node = i then node \<lparr> p_name := nm \<rparr> else node) (page_children d),
         elsewhere :=
            map (\<lambda>node. if p_id node = i then node \<lparr> p_name := nm \<rparr> else node) (elsewhere d) \<rparr>"

record annotate_state =
  a_wrappers :: "wrapper list"
  a_notes :: "string list"
  a_doc :: doc

text \<open>
  The loop over the selection. A rejected element adds its warning and the loop
  continues; an accepted one gets a token, its label, its wrapper, the \<open>iconId\<close>
  entry and its new name. Each wrapper is created on the page and leaves it when the
  wrappers are grouped or appended after the loop, so the page's children are the same
  before and after. The font is taken to load.
\<close>

fun annotate_loop :: "host \<Rightarrow> node list \<Rightarrow> annotate_state \<Rightarrow> annotate_state" where
  "annotate_loop h [] s = s"
| "annotate_loop h (icon # rest) s =
     (case validate icon of
        Inl msg \<Rightarrow> annotate_loop h rest (s \<lparr> a_notes := a_notes s @ [msg] \<rparr>)
      | Inr originalName \<Rightarrow>
          (let uuid = uuid_at h (length (a_wrappers s));
               created = createAnnotationGroup h icon originalName uuid;
               wrapper = created \<lparr> w_pluginData :=
                           setPluginData ''iconId'' (nid icon) (w_pluginData created) \<rparr>
           in annotate_loop h rest
                (s \<lparr> a_wrappers := a_wrappers s @ [wrapper],
                     a_doc := rename_node (nid icon) (originalName @ ''-'' @ uuid) (a_doc s) \<rparr>)))"

text \<open>\<open>figma.currentPage.appendChild(mainGroup)\<close>: the group becomes the page's last child.\<close>

definition move_to_page_end :: "pnode \<Rightarrow> doc \<Rightarrow> doc" where
  "move_to_page_end g d =
     d \<lparr> page_children := filter (\<lambda>node. p_id node \<noteq> p_id g) (page_children d) @ [g],
         elsewhere := filter (\<lambda>node. p_id node \<noteq> p_id g) (elsewhere d) \<rparr>"

record outcome =
  o_doc :: doc
  o_notes :: "string list"
  o_close :: "string option"
  o_wrappers :: "wrapper list"

definition annotate :: "host \<Rightarrow> node list \<Rightarrow> doc \<Rightarrow> outcome" where
  "annotate h selection d =
     (if selection = [] then
        \<lparr> o_doc = d, o_notes = [], o_close = Some ''Please select one or more icons.'',
          o_wrappers = [] \<rparr>
      else
        (let mainGroup = fst (getMainGroup d);
             s = annotate_loop h selection
                   \<lparr> a_wrappers = [], a_notes = [], a_doc = snd (getMainGroup d) \<rparr>;
             wrappers = a_wrappers s
         in if wrappers = [] then
              \<lparr> o_doc = a_doc s, o_notes = a_notes s,
                o_close = Some ''No icons annotated, please check naming.'',
                o_wrappers = [] \<rparr>
            else
              \<lparr> o_doc =
                  (case mainGroup of
                     None \<Rightarrow>
                       (a_doc s) \<lparr> page_children := page_children (a_doc s) @
                          [\<lparr> p_type = GROUP, p_id = new_group_id h, p_name = mainGroupName,
                             p_locked = True, p_children = wrappers \<rparr>] \<rparr>
                   | Some g \<Rightarrow>
                       move_to_page_end
                         (g \<lparr> p_children := p_children g @ wrappers, p_locked := True \<rparr>)
                         (a_doc s)),
                o_notes = a_notes s,
                o_close = Some ''Annotated icons successfully.'',
                o_wrappers = wrappers \<rparr>))"

subsection \<open>main: the realign workflow\<close>

definition findCard :: "wrapper \<Rightarrow> card option" where
  "findCard w = find (\<lambda>n. c_type n = FRAME \<and> c_name n = ''icon-naming-card'') (w_nodes w)"

text \<open>
  The gaps record as \<open>Object.entries\<close> gives it, the four entries in insertion
  order, from the bounds; the first key after the sort; and the two for a target.
\<close>

definition realignGaps :: "node \<Rightarrow> canvas_bounds \<Rightarrow> (direction \<times> jsval) list" where
  "realignGaps icon bnd =
     (let x = absX icon; y = absY icon; w = width icon; h = height icon
      in [(DLeft, js_minus (Num x) (leftBound_c bnd)),
          (DRight, js_minus (rightBound_c bnd) (Num (x + w))),
          (DTop, js_minus (Num y) (topBound_c bnd)),
          (DBottom, js_minus (bottomBound_c bnd) (Num (y + h)))])"

definition sortedFirst :: "(direction \<times> jsval) list \<Rightarrow> direction" where
  "sortedFirst entries =
     fst (hd (sort_by (\<lambda>a b. sortCompare (js_minus (snd a) (snd b))) entries))"

definition realignDirection :: "node \<Rightarrow> direction" where
  "realignDirection icon = sortedFirst (realignGaps icon (resolveBounds_canvas icon))"

definition positions :: "node \<Rightarrow> card \<Rightarrow> direction \<Rightarrow> real \<times> real" where
  "positions icon frame d =
     (let x = absX icon; y = absY icon; w = width icon; h = height icon
      in case d of
           DRight \<Rightarrow> (x + w, y + h / 2 - c_height frame / 2)
         | DLeft \<Rightarrow> (x - c_width frame, y + h / 2 - c_height frame / 2)
         | DTop \<Rightarrow> (x + w / 2 - c_width frame / 2, y - c_height frame)
         | DBottom \<Rightarrow> (x + w / 2 - c_width frame / 2, y + h))"

text \<open>
  The loop over the snapshot of the group's children. The result is the children the
  group has afterwards and the two counters. What the host does with a group whose last
  child is removed is not part of the model: the group is kept, empty.
\<close>

fun realign_loop :: "host \<Rightarrow> wrapper list \<Rightarrow> wrapper list \<times> nat \<times> nat" where
  "realign_loop hst [] = ([], 0, 0)"
| "realign_loop hst (wrapper # rest) =
     (case realign_loop hst rest of (kept, realigned, removed) \<Rightarrow>
        if \<not> startsWith (w_name wrapper) ''iconAnnotation-'' then
          (wrapper # kept, realigned, removed)
        else
          (case sceneNode hst (getPluginData (w_pluginData wrapper) ''iconId'') of
             None \<Rightarrow> (kept, realigned, removed + 1)
           | Some icon \<Rightarrow>
               (case findCard wrapper of
                  None \<Rightarrow> (wrapper # kept, realigned, removed)
                | Some frame \<Rightarrow>
                    (let dir = realignDirection icon
                     in (wrapper \<lparr> w_x := fst (positions icon frame dir),
                                   w_y := snd (positions icon frame dir) \<rparr> # kept,
                         realigned + 1, removed)))))"

definition realign :: "host \<Rightarrow> doc \<Rightarrow> outcome" where
  "realign hst d =
     (case fst (getMainGroup d) of
        None \<Rightarrow>
          \<lparr> o_doc = snd (getMainGroup d), o_notes = [],
            o_close = Some (''can'' @ [CHR 0x27] @ ''t find main group.''), o_wrappers = [] \<rparr>
      | Some g \<Rightarrow>
          (case realign_loop hst (p_children g) of (kept, realigned, removed) \<Rightarrow>
             \<lparr> o_doc = move_to_page_end (g \<lparr> p_children := kept, p_locked := True \<rparr>)
                         (snd (getMainGroup d)),
               o_notes = [],
               o_close = Some (''Re-aligned '' @ string_of_nat realigned
                  @ '' annotations, removed '' @ string_of_nat removed
                  @ '' invalid annotations.''),
               o_wrappers = [] \<rparr>))"

definition main :: "host \<Rightarrow> string \<Rightarrow> node list \<Rightarrow> doc \<Rightarrow> outcome" where
  "main hst command selection d =
     (if command = ''annotate'' then annotate hst selection d
      else if command = ''realign'' then realign hst d
      else \<lparr> o_doc = d, o_notes = [], o_close = None, o_wrappers = [] \<rparr>)"

section \<open>Vocabulary of the specification\<close>




definition gap_of :: "gap_result \<Rightarrow> direction \<Rightarrow> real" where
  "gap_of r d = (case d of DLeft \<Rightarrow> gapLeft r | DRight \<Rightarrow> gapRight r
                  | DTop \<Rightarrow> gapTop r | DBottom \<Rightarrow> gapBottom r)"

definition numeric_result :: "gap_result \<Rightarrow> gap_result_ts" where
  "numeric_result r =
     \<lparr> minDir_ts = minDir r, minGap_ts = Num (minGap r), res_x_ts = res_x r, res_y_ts = res_y r,
       gapLeft_ts = Num (gapLeft r), gapRight_ts = Num (gapRight r),
       gapTop_ts = Num (gapTop r), gapBottom_ts = Num (gapBottom r) \<rparr>"


text \<open>
  The four origin formulas in the words of the specification: the element's absolute
  position \<open>(x, y)\<close> and size \<open>(w, h)\<close>, the assembly's measured size
  \<open>(A_w, A_h)\<close>.
\<close>

definition origin_formula :: "direction \<Rightarrow> real \<Rightarrow> real \<Rightarrow> real \<Rightarrow> real \<Rightarrow> real \<Rightarrow> real \<Rightarrow> real \<times> real" where
  "origin_formula d x y w h A_w A_h =
     (case d of
        DRight \<Rightarrow> (x + w, y + h / 2 - A_h / 2)
      | DLeft \<Rightarrow> (x - A_w, y + h / 2 - A_h / 2)
      | DTop \<Rightarrow> (x + w / 2 - A_w / 2, y - A_h)
      | DBottom \<Rightarrow> (x + w / 2 - A_w / 2, y + h))"

text \<open>
  The name the prefix check applies to: for an instance the name of its component (none
  when the component does not resolve), otherwise the element's own name. An element is
  accepted when that name exists and passes the check.
\<close>

definition applicable_name :: "node \<Rightarrow> string option" where
  "applicable_name icon = (if ntype icon = INSTANCE then mainComponent icon else Some (name icon))"

definition accepted :: "node \<Rightarrow> bool" where
  "accepted icon = (case applicable_name icon of None \<Rightarrow> False | Some nm \<Rightarrow> prefix_test nm)"

text \<open>
  The anchor groups among the page's immediate children, and the relation between a
  page node before and after the renames of the annotate loop: the same identifier,
  and an anchor group afterwards only if it is the unchanged node.
\<close>

definition anchor_groups :: "doc \<Rightarrow> pnode list" where
  "anchor_groups d = filter is_main_group (page_children d)"

definition same_or_renamed :: "pnode \<Rightarrow> pnode \<Rightarrow> bool" where
  "same_or_renamed a b = (p_id b = p_id a \<and> (\<not> is_main_group b \<or> b = a))"

section \<open>Example scene\<close>

text \<open>
  A page with an artboard of 375 by 100 at the origin, an icon in it that overhangs its
  bottom edge, a nested frame with an icon of its own, and two layers directly on the
  page, one of them far from the left edge and near the top; a host that measures every
  card as 120 by 30.
\<close>

definition example_document :: node where
  "example_document = Node DOCUMENT ''0:0'' ''Document'' 0 0 0 0 None None"

definition example_page :: node where
  "example_page = Node PAGE ''0:1'' ''Page 1'' 0 0 0 0 None (Some example_document)"

definition example_frame :: node where
  "example_frame = Node FRAME ''1:2'' ''Artboard'' 0 0 375 100 None (Some example_page)"

definition example_icon :: node where
  "example_icon = Node RECTANGLE ''1:3'' ''ic_foo'' 100 100 24 24 None (Some example_frame)"

definition example_inner_frame :: node where
  "example_inner_frame = Node FRAME ''1:4'' ''Row'' 20 20 200 60 None (Some example_frame)"

definition example_nested_icon :: node where
  "example_nested_icon = Node VECTOR ''1:5'' ''ic_bar'' 30 30 24 24 None (Some example_inner_frame)"

definition example_canvas_icon :: node where
  "example_canvas_icon = Node RECTANGLE ''1:6'' ''ic_baz'' 10 20 24 24 None (Some example_page)"

definition example_far_icon :: node where
  "example_far_icon = Node RECTANGLE ''1:8'' ''ic_far'' 500 3 24 24 None (Some example_page)"

definition example_bar :: node where
  "example_bar = Node RECTANGLE ''1:7'' ''bar'' 50 50 24 24 None (Some example_page)"

definition example_host :: host where
  "example_host = \<lparr> layout = (\<lambda>c. (120, 30)), uuid_at = (\<lambda>k. ''17000000000004242''),
      new_group_id = ''9:9'',
      sceneNode = (\<lambda>i. if i = ''1:3'' then Some example_icon
                          else if i = ''1:6'' then Some example_canvas_icon else None) \<rparr>"

text \<open>The wrapper the annotate workflow builds for the overhanging icon.\<close>

definition example_wrapper :: wrapper where
  "example_wrapper =
     (createAnnotationGroup example_host example_icon ''ic_foo'' ''42'')
       \<lparr> w_pluginData := [(''iconId'', ''1:3''), (''uuid'', ''42''), (''targetId'', ''1:3'')] \<rparr>"

text \<open>
  Pages for the examples: one without an anchor group; one whose anchor group holds
  the example wrapper, displaced to the origin, and a wrapper whose target is gone; the
  same page with its cache set; and a page whose only immediate anchor group is not the
  one its cached identifier resolves to.
\<close>

definition example_doc :: doc where
  "example_doc = \<lparr> page_children =
       [\<lparr> p_type = FRAME, p_id = ''1:2'', p_name = ''Artboard'', p_locked = False, p_children = [] \<rparr>,
        \<lparr> p_type = RECTANGLE, p_id = ''1:7'', p_name = ''bar'', p_locked = False, p_children = [] \<rparr>],
      elsewhere = [], mainGroupId = [] \<rparr>"

definition example_stale_wrapper :: wrapper where
  "example_stale_wrapper =
     example_wrapper \<lparr> w_name := ''iconAnnotation-43'', w_pluginData := [(''iconId'', ''7:7'')] \<rparr>"

definition example_main_group :: pnode where
  "example_main_group =
     \<lparr> p_type = GROUP, p_id = ''5:1'', p_name = mainGroupName, p_locked = True,
       p_children = [example_wrapper \<lparr> w_x := 0, w_y := 0 \<rparr>, example_stale_wrapper] \<rparr>"

definition example_annotated_doc :: doc where
  "example_annotated_doc = \<lparr> page_children =
       [\<lparr> p_type = FRAME, p_id = ''1:2'', p_name = ''Artboard'', p_locked = False, p_children = [] \<rparr>,
        example_main_group],
      elsewhere = [], mainGroupId = [] \<rparr>"

definition example_cached_doc :: doc where
  "example_cached_doc = example_annotated_doc \<lparr> mainGroupId := ''5:1'' \<rparr>"

definition example_other_group :: pnode where
  "example_other_group =
     \<lparr> p_type = GROUP, p_id = ''5:2'', p_name = mainGroupName, p_locked = True, p_children = [] \<rparr>"

definition example_stale_cache_doc :: doc where
  "example_stale_cache_doc =
     \<lparr> page_children = [example_other_group], elsewhere = [example_main_group],
       mainGroupId = ''5:1'' \<rparr>"

section \<open>Properties\<close>

lemma walk_frames:
  "walk n outer = (case frame_ancestors n of [] \<Rightarrow> outer | f # fs \<Rightarrow> Some (last (f # fs)))"
  unfolding frame_ancestors_def below_canvas_def
  by (induction n outer rule: walk.induct) (auto split: list.splits)

lemma sort4_head:
  "hd (sort_by (\<lambda>a b. snd a - snd b) [(DLeft, gl), (DRight, gr), (DTop, gt), (DBottom, gb)]) =
     (if gl \<le> gr \<and> gl \<le> gt \<and> gl \<le> gb then (DLeft, gl)
      else if gr \<le> gt \<and> gr \<le> gb then (DRight, gr)
      else if gt \<le> gb then (DTop, gt) else (DBottom, gb))"
  by (auto simp: sort_by_def)


lemma gaps_and_direction_fields:
  "gapLeft (gaps_and_direction n b) = absX n - leftBound b"
  "gapRight (gaps_and_direction n b) = rightBound b - (absX n + width n)"
  "gapTop (gaps_and_direction n b) = absY n - topBound b"
  "gapBottom (gaps_and_direction n b) = bottomBound b - (absY n + height n)"
  "res_x (gaps_and_direction n b) = absX n"
  "res_y (gaps_and_direction n b) = absY n"
  by (simp_all add: gaps_and_direction_def Let_def)

lemma gaps_and_direction_min:
  "minDir (gaps_and_direction n b) =
     (let gl = absX n - leftBound b; gr = rightBound b - (absX n + width n);
          gt = absY n - topBound b; gb = bottomBound b - (absY n + height n)
      in if gl \<le> gr \<and> gl \<le> gt \<and> gl \<le> gb then DLeft
      else if gr \<le> gt \<and> gr \<le> gb then DRight
      else if gt \<le> gb then DTop else DBottom)"
  "minGap (gaps_and_direction n b) = gap_of (gaps_and_direction n b) (minDir (gaps_and_direction n b))"
  by (simp_all add: gaps_and_direction_def Let_def sort4_head gap_of_def)



lemmas example_defs = example_document_def example_page_def example_frame_def example_icon_def
  example_inner_frame_def example_nested_icon_def example_canvas_icon_def example_bar_def example_far_icon_def

lemma getOutermostFrame_frames:
  "getOutermostFrame n = (if frame_ancestors n = [] then None else Some (last (frame_ancestors n)))"
  by (simp add: getOutermostFrame_def walk_frames split: list.splits)

lemma below_canvas_on_page: "parent n = Some p \<Longrightarrow> ntype p = PAGE \<Longrightarrow> below_canvas n = []"
  by (cases n) (simp add: below_canvas_def)

lemma example_frames:
  "frame_ancestors example_nested_icon = [example_inner_frame, example_frame]"
  "frame_ancestors example_icon = [example_frame]"
  "frame_ancestors example_canvas_icon = []"
  "frame_ancestors example_far_icon = []"
  by (simp_all add: frame_ancestors_def below_canvas_def example_defs)

lemma example_frames_differ: "example_frame \<noteq> example_inner_frame"
  by (simp add: example_defs)

text \<open>
  Claim C5. For every element, \<open>getOutermostFrame\<close> returns the last frame of the
  parent chain walked upward until the canvas root, that is the outermost frame
  ancestor; it returns \<open>None\<close> exactly when there is no frame ancestor below the
  canvas root, in particular for an element whose parent is the page. In the example
  scene the nested icon has two frame ancestors, and the result is the outer one, not
  the innermost.
\<close>

theorem C5_outermost_frame:
  "getOutermostFrame n = (if frame_ancestors n = [] then None else Some (last (frame_ancestors n)))
   \<and> (getOutermostFrame n = None \<longleftrightarrow> frame_ancestors n = [])
   \<and> (\<forall>p. parent n = Some p \<and> ntype p = PAGE \<longrightarrow> getOutermostFrame n = None)
   \<and> (\<exists>m. frame_ancestors m \<noteq> []
          \<and> getOutermostFrame m = Some (last (frame_ancestors m))
          \<and> getOutermostFrame m \<noteq> Some (hd (frame_ancestors m)))"
proof -
  have a: "getOutermostFrame n = (if frame_ancestors n = [] then None else Some (last (frame_ancestors n)))"
    by (rule getOutermostFrame_frames)
  have b: "getOutermostFrame n = None \<longleftrightarrow> frame_ancestors n = []"
    by (simp add: a)
  have c: "\<forall>p. parent n = Some p \<and> ntype p = PAGE \<longrightarrow> getOutermostFrame n = None"
    by (auto simp: a frame_ancestors_def dest: below_canvas_on_page)
  have d: "frame_ancestors example_nested_icon \<noteq> []
      \<and> getOutermostFrame example_nested_icon = Some (last (frame_ancestors example_nested_icon))
      \<and> getOutermostFrame example_nested_icon \<noteq> Some (hd (frame_ancestors example_nested_icon))"
    by (simp add: getOutermostFrame_frames example_frames example_frames_differ)
  from a b c d show ?thesis by blast
qed

text \<open>The example scene: the nested icon, and the layer directly on the page.\<close>

theorem C5_outermost_frame_witness:
  "getOutermostFrame example_nested_icon = Some example_frame
   \<and> parent example_canvas_icon = Some example_page \<and> ntype example_page = PAGE
   \<and> getOutermostFrame example_canvas_icon = None"
  using C5_outermost_frame [of example_nested_icon] C5_outermost_frame [of example_canvas_icon]
  by (simp add: example_frames) (simp add: example_defs)

lemma example_getOutermostFrame:
  "getOutermostFrame example_icon = Some example_frame"
  "getOutermostFrame example_canvas_icon = None"
  "getOutermostFrame example_nested_icon = Some example_frame"
  "getOutermostFrame example_far_icon = None"
  by (simp_all add: getOutermostFrame_frames example_frames)

lemma example_fields:
  "absX example_icon = 100" "absY example_icon = 100" "width example_icon = 24" "height example_icon = 24"
  "absX example_frame = 0" "absY example_frame = 0" "width example_frame = 375" "height example_frame = 100"
  "absX example_canvas_icon = 10" "absY example_canvas_icon = 20"
  "width example_canvas_icon = 24" "height example_canvas_icon = 24"
  "nid example_icon = ''1:3''" "nid example_canvas_icon = ''1:6''"
  by (simp_all add: example_defs)

lemma example_far_fields:
  "absX example_far_icon = 500" "absY example_far_icon = 3"
  "width example_far_icon = 24" "height example_far_icon = 24"
  by (simp_all add: example_far_icon_def)

lemma example_host_fields:
  "layout example_host c = (120, 30)"
  "sceneNode example_host ''1:3'' = Some example_icon"
  by (simp_all add: example_host_def)

lemma example_calc:
  "calculateGapAndDirection example_icon =
     \<lparr> minDir = DBottom, minGap = - 24, res_x = 100, res_y = 100,
       gapLeft = 100, gapRight = 251, gapTop = 100, gapBottom = - 24 \<rparr>"
  "calculateGapAndDirection example_canvas_icon =
     \<lparr> minDir = DLeft, minGap = 0, res_x = 10, res_y = 20,
       gapLeft = 0, gapRight = 0, gapTop = 0, gapBottom = 0 \<rparr>"
  by (simp_all add: calculateGapAndDirection_def resolveBounds_def frameBounds_def
        example_getOutermostFrame example_fields gaps_and_direction_def sort4_head Let_def)

lemma sort4_head_num:
  "hd (sort_by (\<lambda>a b. sortCompare (js_minus (snd a) (snd b)))
         [(DLeft, Num gl), (DRight, Num gr), (DTop, Num gt), (DBottom, Num gb)]) =
     (if gl \<le> gr \<and> gl \<le> gt \<and> gl \<le> gb then (DLeft, Num gl)
      else if gr \<le> gt \<and> gr \<le> gb then (DRight, Num gr)
      else if gt \<le> gb then (DTop, Num gt) else (DBottom, Num gb))"
  by (auto simp: sort_by_def sortCompare_def)

lemma sort4_head_missing:
  "hd (sort_by (\<lambda>a b. sortCompare (js_minus (snd a) (snd b)))
         [(DLeft, Num gl), (DRight, NaN), (DTop, Num gt), (DBottom, NaN)]) = (DLeft, Num gl)"
  by (simp add: sort_by_def sortCompare_def)

lemma realignGaps_numeric:
  "realignGaps n (numeric bnd) =
     [(DLeft, Num (gapLeft (gaps_and_direction n bnd))),
      (DRight, Num (gapRight (gaps_and_direction n bnd))),
      (DTop, Num (gapTop (gaps_and_direction n bnd))),
      (DBottom, Num (gapBottom (gaps_and_direction n bnd)))]"
  by (simp add: realignGaps_def numeric_def gaps_and_direction_fields Let_def)

lemma sortedFirst_numeric:
  "sortedFirst (realignGaps n (numeric bnd)) = minDir (gaps_and_direction n bnd)"
  by (simp add: sortedFirst_def realignGaps_numeric sort4_head_num gaps_and_direction_min(1)
        gaps_and_direction_fields Let_def)

lemma resolveBounds_canvas_frame:
  "getOutermostFrame n = Some f \<Longrightarrow> resolveBounds_canvas n = numeric (frameBounds f)"
  by (simp add: resolveBounds_canvas_def)

lemma realignDirection_frame:
  "getOutermostFrame n = Some f \<Longrightarrow>
     realignDirection n = sortedFirst (realignGaps n (numeric (frameBounds f)))"
  by (simp add: realignDirection_def resolveBounds_canvas_frame)

text \<open>
  Without a frame ancestor the right and the bottom bound are \<open>undefined\<close>: the
  right and the bottom gap are \<open>NaN\<close>, and the sort leaves left first, in the
  realign workflow and in the TypeScript calculator alike.
\<close>

lemma realign_without_frame:
  assumes "getOutermostFrame icon = None"
  shows "realignGaps icon (resolveBounds_canvas icon) =
           [(DLeft, Num (absX icon)), (DRight, NaN), (DTop, Num (absY icon)), (DBottom, NaN)]"
    and "realignDirection icon = DLeft"
proof -
  show gaps: "realignGaps icon (resolveBounds_canvas icon) =
           [(DLeft, Num (absX icon)), (DRight, NaN), (DTop, Num (absY icon)), (DBottom, NaN)]"
    using assms
    by (simp add: realignGaps_def resolveBounds_canvas_def currentPage_width_def
          currentPage_height_def Let_def)
  show "realignDirection icon = DLeft"
    by (simp add: realignDirection_def gaps sortedFirst_def sort4_head_missing)
qed

lemma calculateGapAndDirection_ts_without_frame:
  assumes "getOutermostFrame n = None"
  shows "calculateGapAndDirection_ts n =
     \<lparr> minDir_ts = DLeft, minGap_ts = Num (absX n), res_x_ts = absX n, res_y_ts = absY n,
       gapLeft_ts = Num (absX n), gapRight_ts = NaN, gapTop_ts = Num (absY n),
       gapBottom_ts = NaN \<rparr>"
  using assms
  by (simp add: calculateGapAndDirection_ts_def resolveBounds_canvas_def currentPage_width_def
        currentPage_height_def sort4_head_missing Let_def)

lemma calculateGapAndDirection_ts_frame:
  assumes "getOutermostFrame n = Some f"
  shows "calculateGapAndDirection_ts n = numeric_result (calculateGapAndDirection n)"
  using assms
  by (simp add: calculateGapAndDirection_ts_def calculateGapAndDirection_def
        resolveBounds_canvas_def resolveBounds_def numeric_def numeric_result_def
        gaps_and_direction_def sort4_head_num sort4_head Let_def)

lemma calculateGapAndDirection_without_frame:
  assumes "getOutermostFrame n = None"
  shows "calculateGapAndDirection n =
      \<lparr> minDir = DLeft, minGap = 0, res_x = absX n, res_y = absY n,
        gapLeft = 0, gapRight = 0, gapTop = 0, gapBottom = 0 \<rparr>"
  using assms
  by (simp add: calculateGapAndDirection_def resolveBounds_def gaps_and_direction_def
        sort4_head Let_def)

lemma example_realignDirection:
  "realignDirection example_icon = DBottom"
  "realignDirection example_canvas_icon = DLeft"
proof -
  have "realignDirection example_icon = minDir (calculateGapAndDirection example_icon)"
    by (simp add: realignDirection_frame [OF example_getOutermostFrame(1)] sortedFirst_numeric
          calculateGapAndDirection_def resolveBounds_def example_getOutermostFrame)
  then show "realignDirection example_icon = DBottom"
    by (simp add: example_calc)
  show "realignDirection example_canvas_icon = DLeft"
    by (rule realign_without_frame(2) [OF example_getOutermostFrame(2)])
qed

text \<open>
  The connector of the card: the size the vector is resized to, the end points of its
  path, and its place among the children, for the length \<open>max (g + 66) 60\<close> of the
  chosen direction's gap \<open>g\<close>.
\<close>

lemma buildCard_connector:
  "vectorSize (buildCard r txt) =
     (if minDir r = DRight \<or> minDir r = DLeft
      then (max (gap_of r (minDir r) + 66) 60, 2)
      else (2, max (gap_of r (minDir r) + 66) 60))"
  "vectorPath (buildCard r txt) =
     (case minDir r of
        DRight \<Rightarrow> ((0, 1), (max (gap_of r (minDir r) + 66) 60, 1))
      | DLeft \<Rightarrow> ((max (gap_of r (minDir r) + 66) 60, 1), (0, 1))
      | DTop \<Rightarrow> ((1, 0), (1, max (gap_of r (minDir r) + 66) 60))
      | DBottom \<Rightarrow> ((1, max (gap_of r (minDir r) + 66) 60), (1, 0)))"
  "c_children (buildCard r txt) =
     (case minDir r of
        DRight \<Rightarrow> [Circle, Connector, Label txt]
      | DLeft \<Rightarrow> [Label txt, Connector, Circle]
      | DTop \<Rightarrow> [Label txt, Connector, Circle]
      | DBottom \<Rightarrow> [Circle, Connector, Label txt])"
  by (cases "minDir r"; simp add: buildCard_def gap_of_def labelPadding_def Let_def)+

lemma createAnnotationGroup_nodes:
  "w_nodes (createAnnotationGroup hst n txt uuid) =
     [(buildCard (calculateGapAndDirection n) txt)
        \<lparr> c_width := fst (layout hst (buildCard (calculateGapAndDirection n) txt)),
          c_height := snd (layout hst (buildCard (calculateGapAndDirection n) txt)) \<rparr>]"
  by (simp add: createAnnotationGroup_def Let_def)

lemma createAnnotationGroup_origin:
  "w_x (createAnnotationGroup hst n txt uuid) =
     groupXMap n (absX n) (fst (layout hst (buildCard (calculateGapAndDirection n) txt)))
       (minDir (calculateGapAndDirection n))"
  "w_y (createAnnotationGroup hst n txt uuid) =
     groupYMap n (absY n) (snd (layout hst (buildCard (calculateGapAndDirection n) txt)))
       (minDir (calculateGapAndDirection n))"
  by (simp_all add: createAnnotationGroup_def Let_def calculateGapAndDirection_def
        gaps_and_direction_fields)

lemma example_minimum_dominant:
  "gap_of (calculateGapAndDirection example_icon) (minDir (calculateGapAndDirection example_icon)) = - 24"
  by (simp add: example_calc gap_of_def)

lemma example_padding_dominant:
  "gap_of (calculateGapAndDirection example_canvas_icon)
     (minDir (calculateGapAndDirection example_canvas_icon)) = 0"
  by (simp add: example_calc gap_of_def)



text \<open>
  Claim C2. The connector that \<open>createAnnotationGroup\<close> builds has the length
  \<open>max (g + 66) 60\<close> for the gap \<open>g\<close> of the chosen direction: the vector is
  resized to that length along its axis (by 2 across), its path runs over that length,
  and it is a child of the card. The length equals the initial
  \<open>max (minGap + 66) 60\<close>. Both branches occur: an element with
  \<open>g + 66 \<ge> 60\<close> whose connector is \<open>g + 66\<close> long, and one with
  \<open>g + 66 < 60\<close> whose connector is 60 long.
\<close>

theorem C2_connector_length:
  "map vectorSize (w_nodes (createAnnotationGroup hst n txt uuid)) =
     [if minDir (calculateGapAndDirection n) = DRight \<or> minDir (calculateGapAndDirection n) = DLeft
      then (max (gap_of (calculateGapAndDirection n) (minDir (calculateGapAndDirection n)) + 66) 60, 2)
      else (2, max (gap_of (calculateGapAndDirection n) (minDir (calculateGapAndDirection n)) + 66) 60)]
   \<and> map vectorPath (w_nodes (createAnnotationGroup hst n txt uuid)) =
     [case minDir (calculateGapAndDirection n) of
        DRight \<Rightarrow> ((0, 1),
          (max (gap_of (calculateGapAndDirection n) (minDir (calculateGapAndDirection n)) + 66) 60, 1))
      | DLeft \<Rightarrow> ((max (gap_of (calculateGapAndDirection n) (minDir (calculateGapAndDirection n)) + 66) 60, 1),
          (0, 1))
      | DTop \<Rightarrow> ((1, 0),
          (1, max (gap_of (calculateGapAndDirection n) (minDir (calculateGapAndDirection n)) + 66) 60))
      | DBottom \<Rightarrow> ((1, max (gap_of (calculateGapAndDirection n) (minDir (calculateGapAndDirection n)) + 66) 60),
          (1, 0))]
   \<and> map (\<lambda>c. Connector \<in> set (c_children c)) (w_nodes (createAnnotationGroup hst n txt uuid)) = [True]
   \<and> max (gap_of (calculateGapAndDirection n) (minDir (calculateGapAndDirection n)) + 66) 60
       = initialLineLength (calculateGapAndDirection n)
   \<and> (\<exists>m. 60 \<le> gap_of (calculateGapAndDirection m) (minDir (calculateGapAndDirection m)) + 66
          \<and> map vectorSize (w_nodes (createAnnotationGroup hst m txt uuid)) =
              [(gap_of (calculateGapAndDirection m) (minDir (calculateGapAndDirection m)) + 66, 2)])
   \<and> (\<exists>m. gap_of (calculateGapAndDirection m) (minDir (calculateGapAndDirection m)) + 66 < 60
          \<and> map vectorSize (w_nodes (createAnnotationGroup hst m txt uuid)) = [(2, 60)])"
proof -
  have size: "\<And>m. map vectorSize (w_nodes (createAnnotationGroup hst m txt uuid)) =
     [if minDir (calculateGapAndDirection m) = DRight \<or> minDir (calculateGapAndDirection m) = DLeft
      then (max (gap_of (calculateGapAndDirection m) (minDir (calculateGapAndDirection m)) + 66) 60, 2)
      else (2, max (gap_of (calculateGapAndDirection m) (minDir (calculateGapAndDirection m)) + 66) 60)]"
    by (simp add: createAnnotationGroup_nodes buildCard_connector(1))
  have path: "map vectorPath (w_nodes (createAnnotationGroup hst n txt uuid)) =
     [case minDir (calculateGapAndDirection n) of
        DRight \<Rightarrow> ((0, 1),
          (max (gap_of (calculateGapAndDirection n) (minDir (calculateGapAndDirection n)) + 66) 60, 1))
      | DLeft \<Rightarrow> ((max (gap_of (calculateGapAndDirection n) (minDir (calculateGapAndDirection n)) + 66) 60, 1),
          (0, 1))
      | DTop \<Rightarrow> ((1, 0),
          (1, max (gap_of (calculateGapAndDirection n) (minDir (calculateGapAndDirection n)) + 66) 60))
      | DBottom \<Rightarrow> ((1, max (gap_of (calculateGapAndDirection n) (minDir (calculateGapAndDirection n)) + 66) 60),
          (1, 0))]"
    by (simp add: createAnnotationGroup_nodes buildCard_connector(2))
  have child: "map (\<lambda>c. Connector \<in> set (c_children c))
                 (w_nodes (createAnnotationGroup hst n txt uuid)) = [True]"
    by (simp add: createAnnotationGroup_nodes buildCard_connector(3) split: direction.splits)
  have init: "max (gap_of (calculateGapAndDirection n) (minDir (calculateGapAndDirection n)) + 66) 60
       = initialLineLength (calculateGapAndDirection n)"
    by (simp add: initialLineLength_def labelPadding_def calculateGapAndDirection_def
          gaps_and_direction_min(2))
  have pad: "60 \<le> gap_of (calculateGapAndDirection example_canvas_icon)
                    (minDir (calculateGapAndDirection example_canvas_icon)) + 66
          \<and> map vectorSize (w_nodes (createAnnotationGroup hst example_canvas_icon txt uuid)) =
              [(gap_of (calculateGapAndDirection example_canvas_icon)
                  (minDir (calculateGapAndDirection example_canvas_icon)) + 66, 2)]"
    by (simp add: size example_padding_dominant) (simp add: example_calc)
  have low: "gap_of (calculateGapAndDirection example_icon)
                    (minDir (calculateGapAndDirection example_icon)) + 66 < 60
          \<and> map vectorSize (w_nodes (createAnnotationGroup hst example_icon txt uuid)) = [(2, 60)]"
    by (simp add: size example_minimum_dominant) (simp add: example_calc)
  have ex_pad: "\<exists>m. 60 \<le> gap_of (calculateGapAndDirection m) (minDir (calculateGapAndDirection m)) + 66
          \<and> map vectorSize (w_nodes (createAnnotationGroup hst m txt uuid)) =
              [(gap_of (calculateGapAndDirection m) (minDir (calculateGapAndDirection m)) + 66, 2)]"
    by (rule exI [where x = example_canvas_icon]) (rule pad)
  have ex_low: "\<exists>m. gap_of (calculateGapAndDirection m) (minDir (calculateGapAndDirection m)) + 66 < 60
          \<and> map vectorSize (w_nodes (createAnnotationGroup hst m txt uuid)) = [(2, 60)]"
    by (rule exI [where x = example_icon]) (rule low)
  show ?thesis
    by (rule conjI [OF size conjI [OF path conjI [OF child conjI [OF init conjI [OF ex_pad ex_low]]]]])
qed

text \<open>
  Claim C4. An element at (100, 100) of size 24 by 24 whose outermost frame is at (0, 0)
  with size 375 by 100 has the gaps left 100, right 251, top 100, bottom -24; the
  direction is bottom although its gap is negative; and the wrapper is placed by the
  bottom formula: x is \<open>100 + 24 / 2\<close> minus half the assembly's width, y is
  \<open>100 + 24\<close>.
\<close>

theorem C4_overhanging_element:
  assumes "absX n = 100" and "absY n = 100" and "width n = 24" and "height n = 24"
    and "getOutermostFrame n = Some f"
    and "absX f = 0" and "absY f = 0" and "width f = 375" and "height f = 100"
  shows "gapLeft (calculateGapAndDirection n) = 100
     \<and> gapRight (calculateGapAndDirection n) = 251
     \<and> gapTop (calculateGapAndDirection n) = 100
     \<and> gapBottom (calculateGapAndDirection n) = - 24
     \<and> minDir (calculateGapAndDirection n) = DBottom
     \<and> minGap (calculateGapAndDirection n) = - 24
     \<and> w_x (createAnnotationGroup hst n txt uuid) =
         100 + 24 / 2 - fst (layout hst (buildCard (calculateGapAndDirection n) txt)) / 2
     \<and> w_y (createAnnotationGroup hst n txt uuid) = 100 + 24"
proof -
  have r: "calculateGapAndDirection n =
     \<lparr> minDir = DBottom, minGap = - 24, res_x = 100, res_y = 100,
       gapLeft = 100, gapRight = 251, gapTop = 100, gapBottom = - 24 \<rparr>"
    using assms
    by (simp add: calculateGapAndDirection_def resolveBounds_def frameBounds_def
          gaps_and_direction_def sort4_head Let_def)
  have "w_x (createAnnotationGroup hst n txt uuid) =
         100 + 24 / 2 - fst (layout hst (buildCard (calculateGapAndDirection n) txt)) / 2"
    using assms by (simp add: createAnnotationGroup_origin groupXMap_def) (simp add: r)
  moreover have "w_y (createAnnotationGroup hst n txt uuid) = 100 + 24"
    using assms by (simp add: createAnnotationGroup_origin groupYMap_def) (simp add: r)
  ultimately show ?thesis by (simp add: r)
qed

text \<open>
  The overhanging icon of the example scene, with an assembly measured 120 by 30.
\<close>

theorem C4_overhanging_element_witness:
  "getOutermostFrame example_icon = Some example_frame
   \<and> minDir (calculateGapAndDirection example_icon) = DBottom
   \<and> gapBottom (calculateGapAndDirection example_icon) = - 24
   \<and> w_x (createAnnotationGroup example_host example_icon ''ic_foo'' ''42'') = 100 + 24 / 2 - 120 / 2
   \<and> w_y (createAnnotationGroup example_host example_icon ''ic_foo'' ''42'') = 124"
  using C4_overhanging_element [OF example_fields(1-4) example_getOutermostFrame(1) example_fields(5-8),
      of example_host "''ic_foo''" "''42''"]
  by (simp add: example_getOutermostFrame example_host_fields)

lemma positions_origin_formula:
  "positions icon frame d =
     origin_formula d (absX icon) (absY icon) (width icon) (height icon) (c_width frame) (c_height frame)"
  by (cases d) (simp_all add: positions_def origin_formula_def Let_def)

lemma group_maps_origin_formula:
  "(groupXMap n (absX n) fw d, groupYMap n (absY n) fh d) =
     origin_formula d (absX n) (absY n) (width n) (height n) fw fh"
  by (cases d) (simp_all add: groupXMap_def groupYMap_def origin_formula_def)

lemma realign_loop_single:
  assumes "startsWith (w_name wr) ''iconAnnotation-''"
    and "sceneNode hst (getPluginData (w_pluginData wr) ''iconId'') = Some icon"
    and "findCard wr = Some frame"
  shows "realign_loop hst [wr] =
     ([wr \<lparr> w_x := fst (positions icon frame (realignDirection icon)),
            w_y := snd (positions icon frame (realignDirection icon)) \<rparr>], 1, 0)"
  using assms by (simp add: Let_def)

lemma example_wrapper_fields:
  "startsWith (w_name example_wrapper) ''iconAnnotation-''"
  "getPluginData (w_pluginData example_wrapper) ''iconId'' = ''1:3''"
  "findCard example_wrapper =
     Some ((buildCard (calculateGapAndDirection example_icon) ''ic_foo'') \<lparr> c_width := 120, c_height := 30 \<rparr>)"
  by (simp_all add: example_wrapper_def createAnnotationGroup_def Let_def startsWith_def
        getPluginData_def findCard_def example_host_fields buildCard_def example_calc)

text \<open>
  Claim C6. The wrapper built at annotate time has its origin at the formula of the
  chosen direction, with the measured size of the card; the table of the realign
  workflow is the same four formulas, with the size of the card found in the wrapper;
  and a wrapper whose target resolves and whose card is found is moved to that
  formula's value.
\<close>

theorem C6_wrapper_origin:
  "(w_x (createAnnotationGroup hst n txt uuid), w_y (createAnnotationGroup hst n txt uuid)) =
      origin_formula (minDir (calculateGapAndDirection n)) (absX n) (absY n) (width n) (height n)
        (fst (layout hst (buildCard (calculateGapAndDirection n) txt)))
        (snd (layout hst (buildCard (calculateGapAndDirection n) txt)))
   \<and> map (\<lambda>c. (c_width c, c_height c)) (w_nodes (createAnnotationGroup hst n txt uuid)) =
        [layout hst (buildCard (calculateGapAndDirection n) txt)]
   \<and> positions icon frame d =
        origin_formula d (absX icon) (absY icon) (width icon) (height icon)
          (c_width frame) (c_height frame)
   \<and> (startsWith (w_name wr) ''iconAnnotation-''
        \<and> sceneNode hst (getPluginData (w_pluginData wr) ''iconId'') = Some icon
        \<and> findCard wr = Some frame
      \<longrightarrow> map (\<lambda>w. (w_x w, w_y w)) (fst (realign_loop hst [wr])) =
            [origin_formula (realignDirection icon) (absX icon) (absY icon)
               (width icon) (height icon) (c_width frame) (c_height frame)])"
proof (intro conjI impI)
  show "(w_x (createAnnotationGroup hst n txt uuid), w_y (createAnnotationGroup hst n txt uuid)) =
      origin_formula (minDir (calculateGapAndDirection n)) (absX n) (absY n) (width n) (height n)
        (fst (layout hst (buildCard (calculateGapAndDirection n) txt)))
        (snd (layout hst (buildCard (calculateGapAndDirection n) txt)))"
    by (simp only: createAnnotationGroup_origin group_maps_origin_formula)
  show "map (\<lambda>c. (c_width c, c_height c)) (w_nodes (createAnnotationGroup hst n txt uuid)) =
        [layout hst (buildCard (calculateGapAndDirection n) txt)]"
    by (simp add: createAnnotationGroup_nodes)
  show "positions icon frame d =
        origin_formula d (absX icon) (absY icon) (width icon) (height icon)
          (c_width frame) (c_height frame)"
    by (rule positions_origin_formula)
next
  assume a: "startsWith (w_name wr) ''iconAnnotation-''
        \<and> sceneNode hst (getPluginData (w_pluginData wr) ''iconId'') = Some icon
        \<and> findCard wr = Some frame"
  then have "realign_loop hst [wr] =
     ([wr \<lparr> w_x := fst (positions icon frame (realignDirection icon)),
            w_y := snd (positions icon frame (realignDirection icon)) \<rparr>], 1, 0)"
    by (intro realign_loop_single) simp_all
  then show "map (\<lambda>w. (w_x w, w_y w)) (fst (realign_loop hst [wr])) =
            [origin_formula (realignDirection icon) (absX icon) (absY icon)
               (width icon) (height icon) (c_width frame) (c_height frame)]"
    by (simp add: positions_origin_formula)
qed

text \<open>
  Realigning the example wrapper: direction bottom, origin (52, 124).
\<close>

theorem C6_wrapper_origin_witness:
  "startsWith (w_name example_wrapper) ''iconAnnotation-''
   \<and> sceneNode example_host (getPluginData (w_pluginData example_wrapper) ''iconId'') = Some example_icon
   \<and> findCard example_wrapper =
       Some ((buildCard (calculateGapAndDirection example_icon) ''ic_foo'') \<lparr> c_width := 120, c_height := 30 \<rparr>)
   \<and> map (\<lambda>w. (w_x w, w_y w)) (fst (realign_loop example_host [example_wrapper])) = [(52, 124)]"
  using C6_wrapper_origin [of example_host example_icon "''ic_foo''" "''42''" example_icon
      "(buildCard (calculateGapAndDirection example_icon) ''ic_foo'') \<lparr> c_width := 120, c_height := 30 \<rparr>"
      DBottom example_wrapper]
  by (simp add: example_wrapper_fields example_host_fields example_realignDirection
        origin_formula_def example_fields)

text \<open>
  Claim C3. The claim fails on the code for the layer on the page at (10, 20), of size
  24 by 24: it has no frame ancestor, and the realign workflow measures it against
  \<open>0\<close>, \<open>0\<close> and the two values it reads from the page, which the page does not
  have. Its gaps are left 10, right \<open>NaN\<close>, top 20, bottom \<open>NaN\<close>, not four
  zeros, and the direction is left. The compiled \<open>calculateGapAndDirection\<close>
  measures the same layer against its own bounds and finds four zero gaps.
\<close>

theorem C3_realign_gaps_without_frame:
  "getOutermostFrame example_canvas_icon = None
   \<and> realignGaps example_canvas_icon (resolveBounds_canvas example_canvas_icon) =
       [(DLeft, Num 10), (DRight, NaN), (DTop, Num 20), (DBottom, NaN)]
   \<and> realignDirection example_canvas_icon = DLeft
   \<and> calculateGapAndDirection example_canvas_icon =
       \<lparr> minDir = DLeft, minGap = 0, res_x = 10, res_y = 20,
         gapLeft = 0, gapRight = 0, gapTop = 0, gapBottom = 0 \<rparr>"
  using realign_without_frame [OF example_getOutermostFrame(2)]
  by (simp add: example_getOutermostFrame example_fields example_calc)

text \<open>
  Claim C10. The claim fails on the code for the layer on the page at (500, 3), of size
  24 by 24, without a frame ancestor: the TypeScript \<open>calculateGapAndDirection\<close>
  reads the page's width and height, which the page does not have; its right and bottom
  gaps are \<open>NaN\<close>, not distances to the canvas edges, and its direction is left
  although the top gap, 3, is smaller than the left gap, 500. The compiled build gives
  four zero gaps and left as well: the direction is the same in both variants.
\<close>

theorem C10_typescript_variant_without_frame:
  "getOutermostFrame example_far_icon = None
   \<and> calculateGapAndDirection_ts example_far_icon =
       \<lparr> minDir_ts = DLeft, minGap_ts = Num 500, res_x_ts = 500, res_y_ts = 3,
         gapLeft_ts = Num 500, gapRight_ts = NaN, gapTop_ts = Num 3, gapBottom_ts = NaN \<rparr>
   \<and> calculateGapAndDirection example_far_icon =
       \<lparr> minDir = DLeft, minGap = 0, res_x = 500, res_y = 3,
         gapLeft = 0, gapRight = 0, gapTop = 0, gapBottom = 0 \<rparr>"
  using calculateGapAndDirection_ts_without_frame [OF example_getOutermostFrame(4)]
    calculateGapAndDirection_without_frame [OF example_getOutermostFrame(4)]
  by (simp add: example_getOutermostFrame example_far_fields)

text \<open>
  What holds of the two variants: they agree on every element with a frame ancestor;
  without one, the compiled build measures against the element's own bounds (four zero
  gaps, left, a connector of length 66) and the TypeScript source has the left gap
  \<open>x\<close>, the top gap \<open>y\<close>, no right and no bottom gap, and left; and they differ
  on the layer at (500, 3).
\<close>

lemma variants_compared:
  "(getOutermostFrame n = Some f \<longrightarrow>
      calculateGapAndDirection_ts n = numeric_result (calculateGapAndDirection n))
   \<and> (getOutermostFrame n = None \<longrightarrow>
        calculateGapAndDirection n =
          \<lparr> minDir = DLeft, minGap = 0, res_x = absX n, res_y = absY n,
            gapLeft = 0, gapRight = 0, gapTop = 0, gapBottom = 0 \<rparr>
        \<and> map vectorSize (w_nodes (createAnnotationGroup hst n txt uuid)) = [(66, 2)]
        \<and> calculateGapAndDirection_ts n =
          \<lparr> minDir_ts = DLeft, minGap_ts = Num (absX n), res_x_ts = absX n, res_y_ts = absY n,
            gapLeft_ts = Num (absX n), gapRight_ts = NaN, gapTop_ts = Num (absY n),
            gapBottom_ts = NaN \<rparr>)
   \<and> calculateGapAndDirection_ts example_far_icon
        \<noteq> numeric_result (calculateGapAndDirection example_far_icon)"
proof (intro conjI impI)
  assume "getOutermostFrame n = Some f"
  then show "calculateGapAndDirection_ts n = numeric_result (calculateGapAndDirection n)"
    by (rule calculateGapAndDirection_ts_frame)
next
  assume none: "getOutermostFrame n = None"
  show r: "calculateGapAndDirection n =
          \<lparr> minDir = DLeft, minGap = 0, res_x = absX n, res_y = absY n,
            gapLeft = 0, gapRight = 0, gapTop = 0, gapBottom = 0 \<rparr>"
    by (rule calculateGapAndDirection_without_frame [OF none])
  show "map vectorSize (w_nodes (createAnnotationGroup hst n txt uuid)) = [(66, 2)]"
    by (simp add: createAnnotationGroup_nodes buildCard_connector(1)) (simp add: r gap_of_def)
  show "calculateGapAndDirection_ts n =
          \<lparr> minDir_ts = DLeft, minGap_ts = Num (absX n), res_x_ts = absX n, res_y_ts = absY n,
            gapLeft_ts = Num (absX n), gapRight_ts = NaN, gapTop_ts = Num (absY n),
            gapBottom_ts = NaN \<rparr>"
    by (rule calculateGapAndDirection_ts_without_frame [OF none])
next
  show "calculateGapAndDirection_ts example_far_icon
        \<noteq> numeric_result (calculateGapAndDirection example_far_icon)"
    by (simp add: calculateGapAndDirection_ts_without_frame [OF example_getOutermostFrame(4)]
          calculateGapAndDirection_without_frame [OF example_getOutermostFrame(4)]
          numeric_result_def)
qed

lemma validate_accepted:
  "accepted icon \<Longrightarrow> \<exists>nm. validate icon = Inr nm \<and> prefix_test nm"
  "\<not> accepted icon \<Longrightarrow> \<exists>msg. validate icon = Inl msg"
  by (auto simp: accepted_def applicable_name_def validate_def split: option.splits if_splits)

lemma annotate_loop_counts:
  "length (a_wrappers (annotate_loop hst sel s)) = length (a_wrappers s) + length (filter accepted sel)
   \<and> length (a_notes (annotate_loop hst sel s)) =
       length (a_notes s) + length (filter (\<lambda>icon. \<not> accepted icon) sel)"
proof (induction sel arbitrary: s)
  case Nil
  then show ?case by simp
next
  case (Cons icon rest)
  show ?case
  proof (cases "accepted icon")
    case True
    then obtain nm where "validate icon = Inr nm" using validate_accepted(1) by blast
    then show ?thesis using True by (simp add: Cons.IH Let_def)
  next
    case False
    then obtain msg where "validate icon = Inl msg" using validate_accepted(2) by blast
    then show ?thesis using False by (simp add: Cons.IH)
  qed
qed

lemma annotate_loop_notes_single:
  "validate b = Inl msg \<Longrightarrow> validate a = Inr nm \<Longrightarrow>
     a_notes (annotate_loop hst [a, b] s) = a_notes s @ [msg]
     \<and> a_notes (annotate_loop hst [b, a] s) = a_notes s @ [msg]"
  by (simp add: Let_def)

lemma example_accepted: "accepted example_icon" "\<not> accepted example_bar"
  by (simp_all add: accepted_def applicable_name_def example_defs prefix_test_def
        starts_with_ci_def ci_char_def)

lemma example_validate_bar:
  "validate example_bar = Inl ''Layer name must start with ic_/ig_/img_/icon_.''"
  by (simp add: validate_def example_defs prefix_test_def starts_with_ci_def ci_char_def)

text \<open>
  Claim C9. For a selection of one accepted and one rejected element, in either order,
  the annotate workflow produces exactly one wrapper and exactly one warning (the one
  of the rejected element), and closes with the success message, not with the message
  for no annotated icon; that message is given exactly when the selection is not empty
  and no wrapper was produced, that is when no selected element is accepted.
\<close>

theorem C9_one_valid_one_invalid:
  assumes "accepted a" and "\<not> accepted b" and "sel = [a, b] \<or> sel = [b, a]"
  shows "length (o_wrappers (annotate hst sel d)) = 1
     \<and> (\<exists>msg. validate b = Inl msg \<and> o_notes (annotate hst sel d) = [msg])
     \<and> o_close (annotate hst sel d) = Some ''Annotated icons successfully.''
     \<and> o_close (annotate hst sel d) \<noteq> Some ''No icons annotated, please check naming.''
     \<and> (\<forall>sel'. o_close (annotate hst sel' d) = Some ''No icons annotated, please check naming.''
           \<longleftrightarrow> sel' \<noteq> [] \<and> o_wrappers (annotate hst sel' d) = [] \<and> filter accepted sel' = [])"
proof -
  obtain nm msg where v: "validate a = Inr nm" "validate b = Inl msg"
    using assms validate_accepted by blast
  define s where "s = annotate_loop hst sel \<lparr> a_wrappers = [], a_notes = [], a_doc = snd (getMainGroup d) \<rparr>"
  have ne: "sel \<noteq> []" using assms(3) by auto
  have "length (a_wrappers s) = 1"
    using assms annotate_loop_counts [of hst sel] by (auto simp: s_def)
  then have w: "a_wrappers s \<noteq> []" "length (a_wrappers s) = 1" by auto
  have n: "a_notes s = [msg]"
    using assms(3) annotate_loop_notes_single [OF v(2) v(1), of hst] by (auto simp: s_def)
  have out: "o_wrappers (annotate hst sel d) = a_wrappers s"
    "o_notes (annotate hst sel d) = a_notes s"
    "o_close (annotate hst sel d) = Some ''Annotated icons successfully.''"
    using ne w(1) by (simp_all add: annotate_def Let_def s_def)
  have gen: "\<forall>sel'. o_close (annotate hst sel' d) = Some ''No icons annotated, please check naming.''
           \<longleftrightarrow> sel' \<noteq> [] \<and> o_wrappers (annotate hst sel' d) = [] \<and> filter accepted sel' = []"
  proof
    fix sel'
    have "a_wrappers (annotate_loop hst sel' \<lparr> a_wrappers = [], a_notes = [], a_doc = snd (getMainGroup d) \<rparr>) = []
       \<longleftrightarrow> filter accepted sel' = []"
    proof -
      have "length (a_wrappers (annotate_loop hst sel' \<lparr> a_wrappers = [], a_notes = [], a_doc = snd (getMainGroup d) \<rparr>))
          = length (filter accepted sel')"
        using annotate_loop_counts [of hst sel' "\<lparr> a_wrappers = [], a_notes = [], a_doc = snd (getMainGroup d) \<rparr>"]
        by simp
      then show ?thesis by (metis length_0_conv)
    qed
    then show "o_close (annotate hst sel' d) = Some ''No icons annotated, please check naming.''
           \<longleftrightarrow> sel' \<noteq> [] \<and> o_wrappers (annotate hst sel' d) = [] \<and> filter accepted sel' = []"
      by (auto simp: annotate_def Let_def)
  qed
  show ?thesis using out w n v gen by simp
qed

text \<open>
  The layer \<open>ic_foo\<close> and the layer \<open>bar\<close> of the example scene.
\<close>

theorem C9_one_valid_one_invalid_witness:
  "accepted example_icon \<and> \<not> accepted example_bar
   \<and> length (o_wrappers (annotate example_host [example_icon, example_bar] example_doc)) = 1
   \<and> o_notes (annotate example_host [example_icon, example_bar] example_doc) =
        [''Layer name must start with ic_/ig_/img_/icon_.'']
   \<and> o_close (annotate example_host [example_icon, example_bar] example_doc) =
        Some ''Annotated icons successfully.''"
  using C9_one_valid_one_invalid [OF example_accepted, of "[example_icon, example_bar]" example_host example_doc]
  by (simp add: example_validate_bar example_accepted)

lemma find_append_cases:
  "find P (xs @ ys) = (case find P xs of None \<Rightarrow> find P ys | Some x \<Rightarrow> Some x)"
  by (induction xs) auto

lemma find_filter_other: "find (\<lambda>n. p_id n = i) (filter (\<lambda>n. p_id n \<noteq> i) xs) = None"
  by (simp add: find_None_iff)

lemma find_SomeD: "find P xs = Some x \<Longrightarrow> P x \<and> x \<in> set xs"
  by (induction xs) (auto split: if_splits)

lemma getMainGroup_result:
  "getMainGroup d =
     (if mainGroupId d \<noteq> [] \<and> (\<exists>n. getNodeById d (mainGroupId d) = Some n \<and> is_main_group n)
      then (getNodeById d (mainGroupId d), d)
      else (case find is_main_group (page_children d) of
              Some node \<Rightarrow> (Some node, d \<lparr> mainGroupId := p_id node \<rparr>)
            | None \<Rightarrow> (None, d)))"
  by (auto simp: getMainGroup_def Let_def split: option.splits)

lemma getMainGroup_Some:
  assumes "fst (getMainGroup d) = Some g"
  shows "is_main_group g" and "mainGroupId (snd (getMainGroup d)) = p_id g"
proof -
  show "is_main_group g"
    using assms by (auto simp: getMainGroup_result split: if_splits option.splits dest: find_SomeD)
  show "mainGroupId (snd (getMainGroup d)) = p_id g"
    using assms
    by (auto simp: getMainGroup_result getNodeById_def split: if_splits option.splits dest: find_SomeD)
qed

lemma getMainGroup_None:
  assumes "fst (getMainGroup d) = None"
  shows "snd (getMainGroup d) = d" and "find is_main_group (page_children d) = None"
  using assms by (auto simp: getMainGroup_result split: if_splits option.splits)

lemma getMainGroup_snd:
  "page_children (snd (getMainGroup d)) = page_children d"
  "elsewhere (snd (getMainGroup d)) = elsewhere d"
  by (auto simp: getMainGroup_result split: option.splits)

lemma getMainGroup_id_nonempty:
  assumes "\<forall>node\<in>set (page_children d). p_id node \<noteq> []" and "fst (getMainGroup d) = Some g"
  shows "p_id g \<noteq> []"
  using assms
  by (auto simp: getMainGroup_result getNodeById_def split: if_splits option.splits dest: find_SomeD)

lemma getMainGroup_after_move:
  assumes "is_main_group g" and "p_id g \<noteq> []" and "mainGroupId d = p_id g"
  shows "getMainGroup (move_to_page_end g d) = (Some g, move_to_page_end g d)"
  using assms
  by (simp add: getMainGroup_def getNodeById_def move_to_page_end_def Let_def
        find_append_cases find_filter_other)

lemma move_to_page_end_twice:
  "move_to_page_end g (move_to_page_end g d) = move_to_page_end g d"
  by (simp add: move_to_page_end_def)

lemma realign_loop_again:
  "realign_loop hst (fst (realign_loop hst ws)) =
     (fst (realign_loop hst ws), fst (snd (realign_loop hst ws)), 0)"
proof (induction ws)
  case Nil
  then show ?case by simp
next
  case (Cons wrapper rest)
  obtain kept realigned removed where r: "realign_loop hst rest = (kept, realigned, removed)"
    by (cases "realign_loop hst rest") auto
  with Cons.IH have ih: "realign_loop hst kept = (kept, realigned, 0)" by simp
  show ?case
    by (simp add: r ih findCard_def Let_def split: option.splits)
qed

lemma realign_Some:
  assumes "fst (getMainGroup d) = Some g"
  shows "o_doc (realign hst d) =
     move_to_page_end (g \<lparr> p_children := fst (realign_loop hst (p_children g)), p_locked := True \<rparr>)
       (snd (getMainGroup d))"
  using assms by (simp add: realign_def split: prod.splits)

lemma example_main_group_resolved:
  "fst (getMainGroup example_annotated_doc) = Some example_main_group"
  by (simp add: getMainGroup_result example_annotated_doc_def example_main_group_def is_main_group_def)

lemma realign_loop_realigned:
  assumes "startsWith (w_name wr) ''iconAnnotation-''"
    and "sceneNode hst (getPluginData (w_pluginData wr) ''iconId'') = Some icon"
    and "findCard wr = Some frame"
  shows "realign_loop hst (wr # rest) =
     (wr \<lparr> w_x := fst (positions icon frame (realignDirection icon)),
           w_y := snd (positions icon frame (realignDirection icon)) \<rparr>
        # fst (realign_loop hst rest),
      fst (snd (realign_loop hst rest)) + 1, snd (snd (realign_loop hst rest)))"
  using assms by (simp add: Let_def split: prod.splits)

lemma example_realign_loop:
  "fst (realign_loop example_host (p_children example_main_group)) =
     [example_wrapper \<lparr> w_x := 52, w_y := 124 \<rparr>]"
proof -
  have a: "realign_loop example_host [example_stale_wrapper] = ([], 0, 1)"
    by (simp add: example_stale_wrapper_def startsWith_def getPluginData_def example_host_def)
  have b: "startsWith (w_name (example_wrapper \<lparr> w_x := 0, w_y := 0 \<rparr>)) ''iconAnnotation-''"
    "sceneNode example_host (getPluginData (w_pluginData (example_wrapper \<lparr> w_x := 0, w_y := 0 \<rparr>)) ''iconId'')
       = Some example_icon"
    "findCard (example_wrapper \<lparr> w_x := 0, w_y := 0 \<rparr>) =
       Some ((buildCard (calculateGapAndDirection example_icon) ''ic_foo'') \<lparr> c_width := 120, c_height := 30 \<rparr>)"
    using example_wrapper_fields by (simp_all add: findCard_def example_host_fields)
  have c: "positions example_icon
       ((buildCard (calculateGapAndDirection example_icon) ''ic_foo'') \<lparr> c_width := 120, c_height := 30 \<rparr>)
       DBottom = (52, 124)"
    by (simp add: positions_def example_fields Let_def)
  show ?thesis
    unfolding example_main_group_def
    by (simp add: realign_loop_realigned [OF b] a c example_realignDirection
          del: realign_loop.simps)
qed

text \<open>
  Claim C8. A second run of the realign loop over the children the first run left, with
  the same targets, leaves every surviving wrapper where the first run put it, and
  removes nothing. For the workflow as a whole: when the anchor group exists (and
  identifiers are not empty, as the host's are), the second run finds the same anchor
  group with the same wrappers and leaves the page as the first run left it.
\<close>

theorem C8_realign_idempotent:
  "fst (realign_loop hst (fst (realign_loop hst ws))) = fst (realign_loop hst ws)
   \<and> map (\<lambda>w. (w_x w, w_y w)) (fst (realign_loop hst (fst (realign_loop hst ws))))
       = map (\<lambda>w. (w_x w, w_y w)) (fst (realign_loop hst ws))
   \<and> snd (snd (realign_loop hst (fst (realign_loop hst ws)))) = 0
   \<and> ((\<forall>node\<in>set (page_children d). p_id node \<noteq> []) \<and> fst (getMainGroup d) = Some g \<longrightarrow>
        o_doc (realign hst (o_doc (realign hst d))) = o_doc (realign hst d)
        \<and> (\<exists>g1. fst (getMainGroup (o_doc (realign hst d))) = Some g1
              \<and> fst (getMainGroup (o_doc (realign hst (o_doc (realign hst d))))) = Some g1
              \<and> p_children g1 = fst (realign_loop hst (p_children g))))"
proof -
  have kept: "fst (realign_loop hst (fst (realign_loop hst ws))) = fst (realign_loop hst ws)"
    by (simp add: realign_loop_again)
  have coords: "map (\<lambda>w. (w_x w, w_y w)) (fst (realign_loop hst (fst (realign_loop hst ws))))
       = map (\<lambda>w. (w_x w, w_y w)) (fst (realign_loop hst ws))"
    by (simp add: realign_loop_again)
  have none: "snd (snd (realign_loop hst (fst (realign_loop hst ws)))) = 0"
    by (simp add: realign_loop_again)
  have page: "(\<forall>node\<in>set (page_children d). p_id node \<noteq> []) \<and> fst (getMainGroup d) = Some g \<longrightarrow>
        o_doc (realign hst (o_doc (realign hst d))) = o_doc (realign hst d)
        \<and> (\<exists>g1. fst (getMainGroup (o_doc (realign hst d))) = Some g1
              \<and> fst (getMainGroup (o_doc (realign hst (o_doc (realign hst d))))) = Some g1
              \<and> p_children g1 = fst (realign_loop hst (p_children g)))"
  proof (rule impI)
  assume "(\<forall>node\<in>set (page_children d). p_id node \<noteq> []) \<and> fst (getMainGroup d) = Some g"
  then have ids: "\<forall>node\<in>set (page_children d). p_id node \<noteq> []"
    and found: "fst (getMainGroup d) = Some g" by blast+
  define g1 where "g1 = g \<lparr> p_children := fst (realign_loop hst (p_children g)), p_locked := True \<rparr>"
  define d1 where "d1 = snd (getMainGroup d)"
  have first: "o_doc (realign hst d) = move_to_page_end g1 d1"
    using found by (simp add: realign_Some g1_def d1_def)
  have main: "is_main_group g1"
    using getMainGroup_Some(1) [OF found] by (simp add: g1_def is_main_group_def)
  have ident: "p_id g1 \<noteq> []"
    using getMainGroup_id_nonempty [OF ids found] by (simp add: g1_def)
  have cache: "mainGroupId d1 = p_id g1"
    using getMainGroup_Some(2) [OF found] by (simp add: g1_def d1_def)
  have resolved: "getMainGroup (move_to_page_end g1 d1) = (Some g1, move_to_page_end g1 d1)"
    by (rule getMainGroup_after_move [OF main ident cache])
  have again: "g1 \<lparr> p_children := fst (realign_loop hst (p_children g1)), p_locked := True \<rparr> = g1"
    by (simp add: g1_def realign_loop_again)
  have second: "o_doc (realign hst (move_to_page_end g1 d1)) = move_to_page_end g1 d1"
    using resolved by (simp add: realign_Some again move_to_page_end_twice)
  have kids: "p_children g1 = fst (realign_loop hst (p_children g))"
    by (simp add: g1_def)
  from first second resolved kids
  show "o_doc (realign hst (o_doc (realign hst d))) = o_doc (realign hst d)
        \<and> (\<exists>g1. fst (getMainGroup (o_doc (realign hst d))) = Some g1
              \<and> fst (getMainGroup (o_doc (realign hst (o_doc (realign hst d))))) = Some g1
              \<and> p_children g1 = fst (realign_loop hst (p_children g)))"
    by simp
  qed
  show ?thesis
    by (rule conjI [OF kept conjI [OF coords conjI [OF none page]]])
qed

text \<open>
  The example page: the first run moves the displaced wrapper from (0, 0) to (52, 124)
  and removes the stale one; the second run changes nothing.
\<close>

theorem C8_realign_idempotent_witness:
  "map p_id (page_children example_annotated_doc) = [''1:2'', ''5:1'']
   \<and> fst (getMainGroup example_annotated_doc) = Some example_main_group
   \<and> map (\<lambda>w. (w_x w, w_y w)) (p_children example_main_group) = [(0, 0), (52, 124)]
   \<and> map (\<lambda>w. (w_x w, w_y w)) (fst (realign_loop example_host (p_children example_main_group)))
       = [(52, 124)]
   \<and> map (\<lambda>w. (w_x w, w_y w))
        (fst (realign_loop example_host (fst (realign_loop example_host (p_children example_main_group)))))
       = [(52, 124)]
   \<and> o_doc (realign example_host (o_doc (realign example_host example_annotated_doc)))
       = o_doc (realign example_host example_annotated_doc)"
proof -
  have ids: "\<forall>node\<in>set (page_children example_annotated_doc). p_id node \<noteq> []"
    by (simp add: example_annotated_doc_def example_main_group_def)
  have before: "map (\<lambda>w. (w_x w, w_y w)) (p_children example_main_group) = [(0, 0), (52, 124)]"
    by (simp add: example_main_group_def example_stale_wrapper_def example_wrapper_def
          createAnnotationGroup_origin example_calc groupXMap_def groupYMap_def
          example_fields example_host_fields)
  note inst = C8_realign_idempotent [of example_host "p_children example_main_group"
      example_annotated_doc example_main_group]
  have hyp: "(\<forall>node\<in>set (page_children example_annotated_doc). p_id node \<noteq> [])
      \<and> fst (getMainGroup example_annotated_doc) = Some example_main_group"
    using ids example_main_group_resolved by simp
  have doc: "o_doc (realign example_host (o_doc (realign example_host example_annotated_doc)))
       = o_doc (realign example_host example_annotated_doc)"
    using inst [THEN conjunct2, THEN conjunct2, THEN conjunct2, THEN mp, OF hyp] by blast
  have coords: "map (\<lambda>w. (w_x w, w_y w))
        (fst (realign_loop example_host (fst (realign_loop example_host (p_children example_main_group)))))
       = [(52, 124)]"
    using inst [THEN conjunct2, THEN conjunct1] by (simp add: example_realign_loop)
  have idents: "map p_id (page_children example_annotated_doc) = [''1:2'', ''5:1'']"
    by (simp add: example_annotated_doc_def example_main_group_def)
  from idents example_main_group_resolved before doc coords show ?thesis
    by (simp add: example_realign_loop)
qed

lemma prefix_test_not_main:
  assumes "prefix_test s"
  shows "s @ t \<noteq> mainGroupName"
proof (cases s)
  case Nil
  with assms show ?thesis by (simp add: prefix_test_def starts_with_ci_def)
next
  case (Cons c cs)
  with assms have "ci_char CHR ''i'' c"
    by (auto simp: prefix_test_def starts_with_ci_def)
  moreover have "\<not> ci_char CHR ''i'' (CHR 0xF0)"
    by (simp add: ci_char_def)
  ultimately have "c \<noteq> CHR 0xF0" by auto
  with Cons show ?thesis by (simp add: mainGroupName_def)
qed

lemma same_or_renamed_refl: "list_all2 same_or_renamed xs xs"
  by (simp add: list_all2_refl same_or_renamed_def)

lemma same_or_renamed_trans:
  "same_or_renamed a b \<Longrightarrow> same_or_renamed b c \<Longrightarrow> same_or_renamed a c"
  by (auto simp: same_or_renamed_def)

lemma same_or_renamed_chain:
  assumes "list_all2 same_or_renamed xs ys" and "list_all2 same_or_renamed ys zs"
  shows "list_all2 same_or_renamed xs zs"
proof (rule list_all2_trans [of same_or_renamed same_or_renamed same_or_renamed, OF _ assms])
  fix a b c
  assume "same_or_renamed a b" and "same_or_renamed b c"
  then show "same_or_renamed a c" by (rule same_or_renamed_trans)
qed

lemma rename_same_or_renamed:
  assumes "nm \<noteq> mainGroupName"
  shows "list_all2 same_or_renamed xs
           (map (\<lambda>node. if p_id node = i then node \<lparr> p_name := nm \<rparr> else node) xs)"
  using assms
  by (induction xs) (auto simp: same_or_renamed_def is_main_group_def)

lemma annotate_loop_doc:
  "list_all2 same_or_renamed (page_children (a_doc s)) (page_children (a_doc (annotate_loop hst sel s)))
   \<and> mainGroupId (a_doc (annotate_loop hst sel s)) = mainGroupId (a_doc s)"
proof (induction sel arbitrary: s)
  case Nil
  then show ?case by (simp add: same_or_renamed_refl)
next
  case (Cons icon rest)
  show ?case
  proof (cases "validate icon")
    case (Inl msg)
    then show ?thesis using Cons.IH [of "s \<lparr> a_notes := a_notes s @ [msg] \<rparr>"] by simp
  next
    case (Inr originalName)
    then have ok: "prefix_test originalName"
      by (auto simp: validate_def split: if_splits option.splits)
    define uuid where "uuid = uuid_at hst (length (a_wrappers s))"
    define s' where "s' = s \<lparr> a_wrappers := a_wrappers s @
        [(createAnnotationGroup hst icon originalName uuid)
           \<lparr> w_pluginData := setPluginData ''iconId'' (nid icon)
               (w_pluginData (createAnnotationGroup hst icon originalName uuid)) \<rparr>],
        a_doc := rename_node (nid icon) (originalName @ ''-'' @ uuid) (a_doc s) \<rparr>"
    have step: "annotate_loop hst (icon # rest) s = annotate_loop hst rest s'"
      using Inr by (simp add: Let_def s'_def uuid_def)
    have A: "list_all2 same_or_renamed (page_children (a_doc s)) (page_children (a_doc s'))"
      using prefix_test_not_main [OF ok]
      by (simp add: s'_def rename_node_def rename_same_or_renamed)
    have A': "mainGroupId (a_doc s') = mainGroupId (a_doc s)"
      by (simp add: s'_def rename_node_def)
    have B: "list_all2 same_or_renamed (page_children (a_doc s'))
               (page_children (a_doc (annotate_loop hst rest s')))"
      and B': "mainGroupId (a_doc (annotate_loop hst rest s')) = mainGroupId (a_doc s')"
      using Cons.IH [of s'] by blast+
    have "list_all2 same_or_renamed (page_children (a_doc s))
               (page_children (a_doc (annotate_loop hst rest s')))"
      using A B by (rule same_or_renamed_chain)
    with A' B' show ?thesis unfolding step by simp
  qed
qed

lemma filter_length_rel:
  assumes "list_all2 R xs ys" and "\<And>a b. R a b \<Longrightarrow> Q b \<Longrightarrow> P a"
  shows "length (filter Q ys) \<le> length (filter P xs)"
  using assms by (induction xs ys rule: list_all2_induct) auto

lemma count_main_le:
  assumes "list_all2 same_or_renamed xs ys"
  shows "length (filter (\<lambda>n. is_main_group n \<and> p_id n \<noteq> i) ys)
       \<le> length (filter (\<lambda>n. is_main_group n \<and> p_id n \<noteq> i) xs)"
proof (rule filter_length_rel [OF assms])
  fix a b
  assume "same_or_renamed a b" and "is_main_group b \<and> p_id b \<noteq> i"
  then show "is_main_group a \<and> p_id a \<noteq> i"
    unfolding same_or_renamed_def by metis
qed

lemma count_main_le_all:
  assumes "list_all2 same_or_renamed xs ys"
  shows "length (filter is_main_group ys) \<le> length (filter is_main_group xs)"
proof (rule filter_length_rel [OF assms])
  fix a b
  assume "same_or_renamed a b" and "is_main_group b"
  then show "is_main_group a"
    unfolding same_or_renamed_def by metis
qed

lemma count_main_less:
  assumes "g \<in> set xs" and "is_main_group g"
  shows "length (filter (\<lambda>n. is_main_group n \<and> p_id n \<noteq> p_id g) xs)
           < length (filter is_main_group xs)"
  using assms(1)
proof (induction xs)
  case Nil
  then show ?case by simp
next
  case (Cons a xs)
  have le: "length (filter (\<lambda>n. is_main_group n \<and> p_id n \<noteq> p_id g) xs)
              \<le> length (filter is_main_group xs)"
    by (rule filter_length_rel [where R = "(=)"]) (simp_all add: list_all2_refl)
  show ?case
  proof (cases "is_main_group a \<and> p_id a = p_id g")
    case True
    with le show ?thesis by simp
  next
    case False
    with assms(2) have "a \<noteq> g" by blast
    with Cons.prems have "g \<in> set xs" by simp
    from Cons.IH [OF this] False show ?thesis by auto
  qed
qed

lemma annotate_doc_related:
  "list_all2 same_or_renamed (page_children d)
     (page_children (a_doc (annotate_loop hst sel
        \<lparr> a_wrappers = [], a_notes = [], a_doc = snd (getMainGroup d) \<rparr>)))"
  using annotate_loop_doc [of "\<lparr> a_wrappers = [], a_notes = [], a_doc = snd (getMainGroup d) \<rparr>" hst sel]
  by (simp add: getMainGroup_snd)

lemma annotate_empty_selection:
  "o_doc (annotate hst [] d) = d" "o_wrappers (annotate hst [] d) = []"
  by (simp_all add: annotate_def)

lemma annotate_wrappers:
  "sel \<noteq> [] \<Longrightarrow> o_wrappers (annotate hst sel d) =
     a_wrappers (annotate_loop hst sel \<lparr> a_wrappers = [], a_notes = [], a_doc = snd (getMainGroup d) \<rparr>)"
  by (simp add: annotate_def Let_def)

lemma annotate_no_wrappers:
  "sel \<noteq> [] \<Longrightarrow> o_wrappers (annotate hst sel d) = [] \<Longrightarrow>
     o_doc (annotate hst sel d) =
       a_doc (annotate_loop hst sel \<lparr> a_wrappers = [], a_notes = [], a_doc = snd (getMainGroup d) \<rparr>)"
  by (simp add: annotate_def Let_def split: if_splits)

lemma annotate_into_group:
  "fst (getMainGroup d) = Some g \<Longrightarrow> o_wrappers (annotate hst sel d) \<noteq> [] \<Longrightarrow>
     o_doc (annotate hst sel d) =
       move_to_page_end
         (g \<lparr> p_children := p_children g @ o_wrappers (annotate hst sel d), p_locked := True \<rparr>)
         (a_doc (annotate_loop hst sel \<lparr> a_wrappers = [], a_notes = [], a_doc = snd (getMainGroup d) \<rparr>))"
  by (simp add: annotate_def Let_def split: if_splits)

lemma annotate_new_group:
  "fst (getMainGroup d) = None \<Longrightarrow> o_wrappers (annotate hst sel d) \<noteq> [] \<Longrightarrow>
     page_children (o_doc (annotate hst sel d)) =
       page_children (a_doc (annotate_loop hst sel
          \<lparr> a_wrappers = [], a_notes = [], a_doc = snd (getMainGroup d) \<rparr>))
       @ [\<lparr> p_type = GROUP, p_id = new_group_id hst, p_name = mainGroupName, p_locked = True,
            p_children = o_wrappers (annotate hst sel d) \<rparr>]"
  by (simp add: annotate_def Let_def split: if_splits)

lemma annotate_anchor_count:
  assumes "length (anchor_groups d) \<le> 1"
    and "\<forall>g. fst (getMainGroup d) = Some g \<longrightarrow> g \<in> set (page_children d)"
  shows "length (anchor_groups (o_doc (annotate hst sel d))) \<le> 1"
proof (cases "sel = []")
  case True
  with assms(1) show ?thesis by (simp add: annotate_empty_selection)
next
  case False
  define ys where "ys = page_children (a_doc (annotate_loop hst sel
        \<lparr> a_wrappers = [], a_notes = [], a_doc = snd (getMainGroup d) \<rparr>))"
  have rel: "list_all2 same_or_renamed (page_children d) ys"
    unfolding ys_def by (rule annotate_doc_related)
  show ?thesis
  proof (cases "o_wrappers (annotate hst sel d) = []")
    case True
    then have "page_children (o_doc (annotate hst sel d)) = ys"
      using False by (simp add: annotate_no_wrappers ys_def)
    then show ?thesis
      using count_main_le_all [OF rel] assms(1) by (simp add: anchor_groups_def)
  next
    case wrappers: False
    show ?thesis
    proof (cases "fst (getMainGroup d)")
      case None
      then have "filter is_main_group (page_children d) = []"
        using getMainGroup_None(2) [of d] by (simp add: find_None_iff filter_empty_conv)
      then have "filter is_main_group ys = []"
        using count_main_le_all [OF rel] by simp
      then show ?thesis
        using annotate_new_group [OF None wrappers]
        by (simp add: anchor_groups_def ys_def is_main_group_def)
    next
      case (Some g)
      then have g: "g \<in> set (page_children d)" "is_main_group g"
        using assms(2) getMainGroup_Some(1) by blast+
      define g' where "g' = g \<lparr> p_children := p_children g @ o_wrappers (annotate hst sel d),
                                p_locked := True \<rparr>"
      have "page_children (o_doc (annotate hst sel d)) =
              filter (\<lambda>node. p_id node \<noteq> p_id g) ys @ [g']"
        using annotate_into_group [OF Some wrappers]
        by (simp add: move_to_page_end_def ys_def g'_def)
      then have "length (anchor_groups (o_doc (annotate hst sel d))) \<le>
              length (filter (\<lambda>n. is_main_group n \<and> p_id n \<noteq> p_id g) ys) + 1"
        by (simp add: anchor_groups_def conj_commute)
      also have "\<dots> \<le> length (filter (\<lambda>n. is_main_group n \<and> p_id n \<noteq> p_id g) (page_children d)) + 1"
        using count_main_le [OF rel] by simp
      also have "\<dots> \<le> length (filter is_main_group (page_children d))"
        using count_main_less [OF g] by simp
      finally show ?thesis using assms(1) by (simp add: anchor_groups_def)
    qed
  qed
qed

lemma anchor_groups_origin:
  assumes "list_all2 same_or_renamed xs ys"
  shows "set (filter is_main_group ys) \<subseteq> set (filter is_main_group xs)"
  using assms
  by (induction xs ys rule: list_all2_induct) (auto simp: same_or_renamed_def)

lemma annotate_anchor_origin:
  assumes "fst (getMainGroup d) = Some g"
  shows "set (anchor_groups (o_doc (annotate hst sel d))) \<subseteq>
           set (anchor_groups d)
           \<union> {g \<lparr> p_children := p_children g @ o_wrappers (annotate hst sel d), p_locked := True \<rparr>}"
proof (cases "sel = []")
  case True
  then show ?thesis by (auto simp: annotate_empty_selection)
next
  case False
  define ys where "ys = page_children (a_doc (annotate_loop hst sel
        \<lparr> a_wrappers = [], a_notes = [], a_doc = snd (getMainGroup d) \<rparr>))"
  have rel: "list_all2 same_or_renamed (page_children d) ys"
    unfolding ys_def by (rule annotate_doc_related)
  show ?thesis
  proof (cases "o_wrappers (annotate hst sel d) = []")
    case True
    then have "page_children (o_doc (annotate hst sel d)) = ys"
      using False by (simp add: annotate_no_wrappers ys_def)
    then show ?thesis
      using anchor_groups_origin [OF rel] by (auto simp: anchor_groups_def)
  next
    case wrappers: False
    have "page_children (o_doc (annotate hst sel d)) =
            filter (\<lambda>node. p_id node \<noteq> p_id g) ys
            @ [g \<lparr> p_children := p_children g @ o_wrappers (annotate hst sel d), p_locked := True \<rparr>]"
      using annotate_into_group [OF assms wrappers]
      by (simp add: move_to_page_end_def ys_def)
    then show ?thesis
      using anchor_groups_origin [OF rel] by (auto simp: anchor_groups_def)
  qed
qed

lemma annotate_last_child:
  assumes "o_wrappers (annotate hst sel d) \<noteq> []"
  shows "last (page_children (o_doc (annotate hst sel d))) =
     (case fst (getMainGroup d) of
        Some g \<Rightarrow> g \<lparr> p_children := p_children g @ o_wrappers (annotate hst sel d), p_locked := True \<rparr>
      | None \<Rightarrow> \<lparr> p_type = GROUP, p_id = new_group_id hst, p_name = mainGroupName,
                  p_locked = True, p_children = o_wrappers (annotate hst sel d) \<rparr>)"
proof (cases "fst (getMainGroup d)")
  case None
  then show ?thesis using annotate_new_group [OF None assms] by simp
next
  case (Some g)
  then show ?thesis using annotate_into_group [OF Some assms] by (simp add: move_to_page_end_def)
qed

lemma example_validate_icon: "validate example_icon = Inr ''ic_foo''"
  by (simp add: validate_def example_defs prefix_test_def starts_with_ci_def ci_char_def)

lemma example_loop_children:
  "page_children (a_doc (annotate_loop example_host [example_icon]
      \<lparr> a_wrappers = [], a_notes = [], a_doc = dd \<rparr>)) =
     map (\<lambda>node. if p_id node = ''1:3''
             then node \<lparr> p_name := ''ic_foo'' @ ''-'' @ uuid_at example_host 0 \<rparr> else node)
       (page_children dd)"
  by (simp add: example_validate_icon Let_def rename_node_def example_fields)

lemma example_one_wrapper:
  "o_wrappers (annotate example_host [example_icon] dd) \<noteq> []"
  by (simp add: annotate_wrappers example_validate_icon Let_def)

lemma example_stale_cache_resolved:
  "fst (getMainGroup example_stale_cache_doc) = Some example_main_group"
  "snd (getMainGroup example_stale_cache_doc) = example_stale_cache_doc"
  by (simp_all add: getMainGroup_result getNodeById_def example_stale_cache_doc_def
        example_main_group_def example_other_group_def is_main_group_def)

lemma example_cached_resolved:
  "fst (getMainGroup example_cached_doc) = Some example_main_group"
  "snd (getMainGroup example_cached_doc) = example_cached_doc"
  by (simp_all add: getMainGroup_result getNodeById_def example_cached_doc_def
        example_annotated_doc_def example_main_group_def is_main_group_def)

text \<open>
  Claim C7. The claim fails on the code at this page: its only immediate anchor group
  has identifier 5:2, and the cached identifier 5:1 resolves to a group of the same
  kind and name that is not an immediate child of the page. \<open>getMainGroup\<close> accepts
  the cached node on kind and name alone, the annotate workflow appends the new wrapper
  to it and then makes it a child of the page: before the run the page has one anchor
  group among its immediate children, after it two.
\<close>

theorem C7_duplicate_anchor_group:
  "length (anchor_groups example_stale_cache_doc) = 1
   \<and> length (anchor_groups (o_doc (annotate example_host [example_icon] example_stale_cache_doc))) = 2"
proof -
  have before: "length (anchor_groups example_stale_cache_doc) = 1"
    by (simp add: anchor_groups_def example_stale_cache_doc_def example_other_group_def
          is_main_group_def)
  have "page_children (o_doc (annotate example_host [example_icon] example_stale_cache_doc)) =
      [example_other_group,
       example_main_group \<lparr> p_children := p_children example_main_group
           @ o_wrappers (annotate example_host [example_icon] example_stale_cache_doc),
         p_locked := True \<rparr>]"
    by (simp add: annotate_into_group [OF example_stale_cache_resolved(1) example_one_wrapper]
          move_to_page_end_def example_loop_children example_stale_cache_resolved(2)
          del: annotate_loop.simps)
       (simp add: example_stale_cache_doc_def example_other_group_def example_main_group_def)
  then have "length (anchor_groups (o_doc (annotate example_host [example_icon] example_stale_cache_doc))) = 2"
    by (simp add: anchor_groups_def is_main_group_def example_other_group_def example_main_group_def)
  with before show ?thesis by simp
qed

text \<open>
  What the code does guarantee: the resolver returns only a group with the exact name,
  and its cache then holds that group's identifier; when the cached identifier does
  not resolve to such a group the result is the first match among the page's immediate
  children; when the resolver returns a group, every anchor group on the page afterwards
  was there before or is the returned group with the new wrappers appended; the page's
  last child then holds all new wrappers, in the returned group or else in a new one;
  and when the returned group, if any, is an immediate child of the page, a page with
  at most one anchor group has at most one afterwards.
\<close>

lemma anchor_group_reused_on_page:
  "(fst (getMainGroup d) = Some g \<longrightarrow>
      p_type g = GROUP \<and> p_name g = mainGroupName \<and> mainGroupId (snd (getMainGroup d)) = p_id g)
   \<and> (\<not> (mainGroupId d \<noteq> [] \<and> (\<exists>n. getNodeById d (mainGroupId d) = Some n \<and> is_main_group n)) \<longrightarrow>
        fst (getMainGroup d) = find is_main_group (page_children d))
   \<and> (fst (getMainGroup d) = Some g \<longrightarrow>
        set (anchor_groups (o_doc (annotate hst sel d))) \<subseteq>
          set (anchor_groups d)
          \<union> {g \<lparr> p_children := p_children g @ o_wrappers (annotate hst sel d), p_locked := True \<rparr>})
   \<and> (o_wrappers (annotate hst sel d) \<noteq> [] \<longrightarrow>
        last (page_children (o_doc (annotate hst sel d))) =
          (case fst (getMainGroup d) of
             Some g' \<Rightarrow> g' \<lparr> p_children := p_children g' @ o_wrappers (annotate hst sel d),
                             p_locked := True \<rparr>
           | None \<Rightarrow> \<lparr> p_type = GROUP, p_id = new_group_id hst, p_name = mainGroupName,
                       p_locked = True, p_children = o_wrappers (annotate hst sel d) \<rparr>))
   \<and> (length (anchor_groups d) \<le> 1
        \<and> (\<forall>g'. fst (getMainGroup d) = Some g' \<longrightarrow> g' \<in> set (page_children d)) \<longrightarrow>
        length (anchor_groups (o_doc (annotate hst sel d))) \<le> 1)"
proof -
  have resolver: "fst (getMainGroup d) = Some g \<longrightarrow>
      p_type g = GROUP \<and> p_name g = mainGroupName \<and> mainGroupId (snd (getMainGroup d)) = p_id g"
    using getMainGroup_Some [of d g] by (simp add: is_main_group_def)
  have scan: "\<not> (mainGroupId d \<noteq> [] \<and> (\<exists>n. getNodeById d (mainGroupId d) = Some n \<and> is_main_group n)) \<longrightarrow>
        fst (getMainGroup d) = find is_main_group (page_children d)"
    by (auto simp: getMainGroup_result split: option.splits)
  have origin: "fst (getMainGroup d) = Some g \<longrightarrow>
        set (anchor_groups (o_doc (annotate hst sel d))) \<subseteq>
          set (anchor_groups d)
          \<union> {g \<lparr> p_children := p_children g @ o_wrappers (annotate hst sel d), p_locked := True \<rparr>}"
    using annotate_anchor_origin [of d g hst sel] by blast
  have merged: "o_wrappers (annotate hst sel d) \<noteq> [] \<longrightarrow>
        last (page_children (o_doc (annotate hst sel d))) =
          (case fst (getMainGroup d) of
             Some g' \<Rightarrow> g' \<lparr> p_children := p_children g' @ o_wrappers (annotate hst sel d),
                             p_locked := True \<rparr>
           | None \<Rightarrow> \<lparr> p_type = GROUP, p_id = new_group_id hst, p_name = mainGroupName,
                       p_locked = True, p_children = o_wrappers (annotate hst sel d) \<rparr>)"
    using annotate_last_child [of hst sel d] by blast
  have count: "length (anchor_groups d) \<le> 1
        \<and> (\<forall>g'. fst (getMainGroup d) = Some g' \<longrightarrow> g' \<in> set (page_children d)) \<longrightarrow>
        length (anchor_groups (o_doc (annotate hst sel d))) \<le> 1"
    using annotate_anchor_count [of d hst sel] by blast
  show ?thesis
    by (rule conjI [OF resolver conjI [OF scan conjI [OF origin conjI [OF merged count]]]])
qed

lemma anchor_group_reused_on_page_example:
  "fst (getMainGroup example_cached_doc) = Some example_main_group
   \<and> example_main_group \<in> set (page_children example_cached_doc)
   \<and> length (anchor_groups example_cached_doc) \<le> 1
   \<and> o_wrappers (annotate example_host [example_icon] example_cached_doc) \<noteq> []
   \<and> length (anchor_groups (o_doc (annotate example_host [example_icon] example_cached_doc))) \<le> 1
   \<and> last (page_children (o_doc (annotate example_host [example_icon] example_cached_doc))) =
       example_main_group \<lparr> p_children := p_children example_main_group
           @ o_wrappers (annotate example_host [example_icon] example_cached_doc),
         p_locked := True \<rparr>"
proof -
  have member: "example_main_group \<in> set (page_children example_cached_doc)"
    by (simp add: example_cached_doc_def example_annotated_doc_def)
  have one: "length (anchor_groups example_cached_doc) \<le> 1"
    by (simp add: anchor_groups_def example_cached_doc_def example_annotated_doc_def
          is_main_group_def mainGroupName_def)
  note inst = anchor_group_reused_on_page [of example_cached_doc example_main_group example_host "[example_icon]"]
  have hyp: "length (anchor_groups example_cached_doc) \<le> 1
      \<and> (\<forall>g'. fst (getMainGroup example_cached_doc) = Some g' \<longrightarrow>
             g' \<in> set (page_children example_cached_doc))"
    using one member by (simp add: example_cached_resolved)
  have count: "length (anchor_groups (o_doc (annotate example_host [example_icon] example_cached_doc))) \<le> 1"
    using inst [THEN conjunct2, THEN conjunct2, THEN conjunct2, THEN conjunct2] hyp by (rule mp)
  have "last (page_children (o_doc (annotate example_host [example_icon] example_cached_doc))) =
          (case fst (getMainGroup example_cached_doc) of
             Some g' \<Rightarrow> g' \<lparr> p_children := p_children g'
                 @ o_wrappers (annotate example_host [example_icon] example_cached_doc),
               p_locked := True \<rparr>
           | None \<Rightarrow> \<lparr> p_type = GROUP, p_id = new_group_id example_host, p_name = mainGroupName,
                       p_locked = True,
                       p_children = o_wrappers (annotate example_host [example_icon] example_cached_doc) \<rparr>)"
    using inst [THEN conjunct2, THEN conjunct2, THEN conjunct2, THEN conjunct1] example_one_wrapper
    by (rule mp)
  then have merged: "last (page_children (o_doc (annotate example_host [example_icon] example_cached_doc))) =
       example_main_group \<lparr> p_children := p_children example_main_group
           @ o_wrappers (annotate example_host [example_icon] example_cached_doc),
         p_locked := True \<rparr>"
    by (simp add: example_cached_resolved)
  from example_cached_resolved(1) member one example_one_wrapper count merged
  show ?thesis by blast
qed

end
